theory Spec2Isabelle
  imports Complex_Main "HOL-Library.AList"
begin

section \<open>Python values\<close>

text \<open>
  A Python \<open>str\<close> is the list of its code points, so that \<open>len\<close>, equality, \<open>in\<close>,
  \<open>split\<close> and \<open>strip\<close> are those of Python on any text. \<open>ascii s\<close> is a literal of the
  source that is written in ASCII, \<open>cp c\<close> the code point of an ASCII character; the
  literals of the source that are not ASCII are written as lists of code points.
\<close>

type_synonym codepoint = nat
type_synonym pystr = "codepoint list"

abbreviation cp :: "char \<Rightarrow> codepoint" where
  "cp c \<equiv> of_char c"

definition ascii :: "string \<Rightarrow> pystr" where
  "ascii s = map of_char s"

text \<open>
  The characters \<open>str.strip()\<close> removes: those for which \<open>str.isspace\<close> holds, which are
  U+0009 to U+000D, U+001C to U+0020, U+0085, U+00A0, U+1680, U+2000 to U+200A, U+2028,
  U+2029, U+202F, U+205F and U+3000.
\<close>

definition is_space :: "codepoint \<Rightarrow> bool" where
  "is_space c =
     ((0x09 \<le> c \<and> c \<le> 0x0D) \<or> (0x1C \<le> c \<and> c \<le> 0x20) \<or> c = 0x85 \<or> c = 0xA0 \<or>
      c = 0x1680 \<or> (0x2000 \<le> c \<and> c \<le> 0x200A) \<or> c = 0x2028 \<or> c = 0x2029 \<or>
      c = 0x202F \<or> c = 0x205F \<or> c = 0x3000)"

definition strip :: "pystr \<Rightarrow> pystr" where
  "strip s = rev (dropWhile is_space (rev (dropWhile is_space s)))"

fun starts_with :: "pystr \<Rightarrow> pystr \<Rightarrow> bool" where
  "starts_with [] s = True"
| "starts_with (p # ps) [] = False"
| "starts_with (p # ps) (c # cs) = (p = c \<and> starts_with ps cs)"

text \<open>\<open>py_in sub s\<close> is Python's \<open>sub in s\<close> on strings.\<close>

fun py_in :: "pystr \<Rightarrow> pystr \<Rightarrow> bool" where
  "py_in sub [] = (sub = [])"
| "py_in sub (c # cs) = (starts_with sub (c # cs) \<or> py_in sub cs)"

text \<open>\<open>split_on sep s\<close> is \<open>s.split(sep)\<close> for a separator of one character.\<close>

fun split_on :: "codepoint \<Rightarrow> pystr \<Rightarrow> pystr list" where
  "split_on sep [] = [[]]"
| "split_on sep (c # cs) =
     (if c = sep then [] # split_on sep cs
      else (case split_on sep cs of
              [] \<Rightarrow> [[c]]
            | p # ps \<Rightarrow> (c # p) # ps))"

text \<open>\<open>replace_char a b s\<close> is \<open>s.replace(a, b)\<close> for single characters.\<close>

definition replace_char :: "codepoint \<Rightarrow> codepoint \<Rightarrow> pystr \<Rightarrow> pystr" where
  "replace_char a b s = map (\<lambda>c. if c = a then b else c) s"

text \<open>
  A value read from a dictionary of the fetched data is \<open>None\<close> or text. \<open>truthy\<close> is its
  truth value in a condition and \<open>py_str\<close> the text \<open>str()\<close> makes of it.
\<close>

datatype pyval = PNone | PStr pystr

fun truthy :: "pyval \<Rightarrow> bool" where
  "truthy PNone = False"
| "truthy (PStr s) = (s \<noteq> [])"

fun py_str :: "pyval \<Rightarrow> pystr" where
  "py_str PNone = ascii ''None''"
| "py_str (PStr s) = s"

section \<open>The interpreter\<close>

datatype date = Date (year: nat) (month: nat) (day: nat)

text \<open>
  What the service takes from the Python interpreter and what differs between its versions:
  the tables of the Unicode database outside ASCII, and \<open>datetime.fromisoformat\<close>, which
  accepts different texts in different versions. \<open>to_upper_full c\<close> is the upper case of the
  code point \<open>c\<close>, of up to three code points; \<open>str_lower s\<close> is \<open>s.lower()\<close>, which is not
  taken character by character because of the final sigma; \<open>unicode_decimal c\<close> is the value of
  \<open>c\<close> as a decimal digit, if it is one.
\<close>

record interpreter =
  to_upper_full :: "codepoint \<Rightarrow> pystr"
  str_lower :: "pystr \<Rightarrow> pystr"
  unicode_decimal :: "codepoint \<Rightarrow> nat option"
  fromisoformat :: "pystr \<Rightarrow> date option"

text \<open>
  \<open>str.upper()\<close> maps each code point on its own. Inside ASCII the letters a to z are
  shifted and nothing else changes; the whitespace characters have no case; every other
  code point is looked up in the table.
\<close>

definition upper_char :: "interpreter \<Rightarrow> codepoint \<Rightarrow> pystr" where
  "upper_char py c =
     (if 97 \<le> c \<and> c \<le> 122 then [c - 32]
      else if c < 128 \<or> is_space c then [c]
      else to_upper_full py c)"

definition upper :: "interpreter \<Rightarrow> pystr \<Rightarrow> pystr" where
  "upper py s = concat (map (upper_char py) s)"

text \<open>\<open>str.lower()\<close>: on text that is all ASCII the letters A to Z are shifted.\<close>

definition lower :: "interpreter \<Rightarrow> pystr \<Rightarrow> pystr" where
  "lower py s =
     (if list_all (\<lambda>c. c < 128) s then map (\<lambda>c. if 65 \<le> c \<and> c \<le> 90 then c + 32 else c) s
      else str_lower py s)"

text \<open>
  The decimal digits, which the digit class of a regular expression on \<open>str\<close> matches
  and \<open>int()\<close> converts: inside ASCII the digits 0 to 9, outside ASCII what the table says.
\<close>

definition decimal :: "interpreter \<Rightarrow> codepoint \<Rightarrow> nat option" where
  "decimal py c =
     (if 48 \<le> c \<and> c \<le> 57 then Some (c - 48)
      else if c < 128 then None
      else unicode_decimal py c)"

definition is_digit :: "interpreter \<Rightarrow> codepoint \<Rightarrow> bool" where
  "is_digit py c = (decimal py c \<noteq> None)"

definition digit_val :: "interpreter \<Rightarrow> codepoint \<Rightarrow> nat" where
  "digit_val py c = (case decimal py c of Some v \<Rightarrow> v | None \<Rightarrow> 0)"

section \<open>Dates and the date parser\<close>

definition is_leap :: "nat \<Rightarrow> bool" where
  "is_leap y = (y mod 4 = 0 \<and> (y mod 100 \<noteq> 0 \<or> y mod 400 = 0))"

definition days_in_month :: "nat \<Rightarrow> nat \<Rightarrow> nat" where
  "days_in_month y m =
     (if m = 2 then (if is_leap y then 29 else 28)
      else if m = 4 \<or> m = 6 \<or> m = 9 \<or> m = 11 then 30 else 31)"

text \<open>
  \<open>mk_date\<close> is the constructor \<open>datetime(year, month, day)\<close> followed by \<open>.date()\<close>:
  \<open>None\<close> stands for its \<open>ValueError\<close>.
\<close>

definition mk_date :: "nat \<Rightarrow> nat \<Rightarrow> nat \<Rightarrow> date option" where
  "mk_date y m d =
     (if 1 \<le> y \<and> y \<le> 9999 \<and> 1 \<le> m \<and> m \<le> 12 \<and> 1 \<le> d \<and> d \<le> days_in_month y m
      then Some (Date y m d) else None)"

text \<open>
  \<open>datetime.strptime\<close> turns a format into a regular expression and matches it at the
  start of the text. Each directive is modelled by the list of its matches in the order the
  regular expression tries its alternatives, each with the text that is left:
  \<open>%Y\<close> is four decimal digits, \<open>%m\<close> is \<open>1[0-2]|0[1-9]|[1-9]\<close> and
  \<open>%d\<close> is \<open>3[0-1]\<close>, or \<open>[1-2]\<close> and a decimal digit, or \<open>0[1-9]|[1-9]| [1-9]\<close>.
  A character class such as \<open>[1-9]\<close> holds ASCII digits only; a decimal digit is any
  character that is one in Unicode.
\<close>

datatype directive = DY | Dm | Dd | Lit pystr

fun re_Y :: "interpreter \<Rightarrow> pystr \<Rightarrow> (nat \<times> pystr) list" where
  "re_Y py (a # b # c # d # rest) =
     (if is_digit py a \<and> is_digit py b \<and> is_digit py c \<and> is_digit py d
      then [(1000 * digit_val py a + 100 * digit_val py b + 10 * digit_val py c + digit_val py d, rest)]
      else [])"
| "re_Y py s = []"

definition two_chars :: "pystr \<Rightarrow> (codepoint \<times> codepoint \<times> pystr) list" where
  "two_chars s = (case s of a # b # rest \<Rightarrow> [(a, b, rest)] | _ \<Rightarrow> [])"

definition one_char :: "pystr \<Rightarrow> (codepoint \<times> pystr) list" where
  "one_char s = (case s of a # rest \<Rightarrow> [(a, rest)] | _ \<Rightarrow> [])"

text \<open>The class \<open>[1-9]\<close>, and the value of an ASCII digit.\<close>

definition nonzero_digit :: "codepoint \<Rightarrow> bool" where
  "nonzero_digit c = (49 \<le> c \<and> c \<le> 57)"

definition ascii_val :: "codepoint \<Rightarrow> nat" where
  "ascii_val c = c - 48"

definition re_m :: "pystr \<Rightarrow> (nat \<times> pystr) list" where
  "re_m s =
     concat (map (\<lambda>(a, b, rest).
        (if a = cp CHR ''1'' \<and> (b = cp CHR ''0'' \<or> b = cp CHR ''1'' \<or> b = cp CHR ''2'')
         then [(10 + ascii_val b, rest)] else []) @
        (if a = cp CHR ''0'' \<and> nonzero_digit b then [(ascii_val b, rest)] else [])) (two_chars s)) @
     concat (map (\<lambda>(a, rest). if nonzero_digit a then [(ascii_val a, rest)] else []) (one_char s))"

definition re_d :: "interpreter \<Rightarrow> pystr \<Rightarrow> (nat \<times> pystr) list" where
  "re_d py s =
     concat (map (\<lambda>(a, b, rest).
        (if a = cp CHR ''3'' \<and> (b = cp CHR ''0'' \<or> b = cp CHR ''1'')
         then [(30 + ascii_val b, rest)] else []) @
        (if (a = cp CHR ''1'' \<or> a = cp CHR ''2'') \<and> is_digit py b
         then [(10 * ascii_val a + digit_val py b, rest)] else []) @
        (if a = cp CHR ''0'' \<and> nonzero_digit b then [(ascii_val b, rest)] else [])) (two_chars s)) @
     concat (map (\<lambda>(a, rest). if nonzero_digit a then [(ascii_val a, rest)] else []) (one_char s)) @
     concat (map (\<lambda>(a, b, rest).
        if a = cp CHR '' '' \<and> nonzero_digit b then [(ascii_val b, rest)] else []) (two_chars s))"

definition re_lit :: "pystr \<Rightarrow> pystr \<Rightarrow> pystr list" where
  "re_lit l s = (if starts_with l s then [drop (length l) s] else [])"

fun match_fmt ::
  "interpreter \<Rightarrow> directive list \<Rightarrow> pystr \<Rightarrow> nat \<times> nat \<times> nat \<Rightarrow> ((nat \<times> nat \<times> nat) \<times> pystr) list" where
  "match_fmt py [] s ymd = [(ymd, s)]"
| "match_fmt py (DY # ds) s (y, m, d) = concat (map (\<lambda>(v, r). match_fmt py ds r (v, m, d)) (re_Y py s))"
| "match_fmt py (Dm # ds) s (y, m, d) = concat (map (\<lambda>(v, r). match_fmt py ds r (y, v, d)) (re_m s))"
| "match_fmt py (Dd # ds) s (y, m, d) = concat (map (\<lambda>(v, r). match_fmt py ds r (y, m, v)) (re_d py s))"
| "match_fmt py (Lit l # ds) s (y, m, d) = concat (map (\<lambda>r. match_fmt py ds r (y, m, d)) (re_lit l s))"

text \<open>
  \<open>strptime py fmt s\<close> is \<open>datetime.strptime(s, fmt).date()\<close>, with \<open>None\<close> for its
  \<open>ValueError\<close>: no match, text left over after the match, or a day the month does not
  have.
\<close>

definition strptime :: "interpreter \<Rightarrow> directive list \<Rightarrow> pystr \<Rightarrow> date option" where
  "strptime py fmt s =
     (case match_fmt py fmt s (1900, 1, 1) of
        [] \<Rightarrow> None
      | ((y, m, d), rest) # _ \<Rightarrow> if rest \<noteq> [] then None else mk_date y m d)"

text \<open>The characters U+5E74, U+6708 and U+65E5 of the fourth format: year, month and day.\<close>

definition nian :: pystr where "nian = [0x5E74]"
definition yue :: pystr where "yue = [0x6708]"
definition ri :: pystr where "ri = [0x65E5]"

definition formats :: "directive list list" where
  "formats =
     [[DY, Lit (ascii ''-''), Dm, Lit (ascii ''-''), Dd],
      [DY, Lit (ascii ''/''), Dm, Lit (ascii ''/''), Dd],
      [Dm, Lit (ascii ''/''), Dd, Lit (ascii ''/''), DY],
      [DY, Lit nian, Dm, Lit yue, Dd, Lit ri]]"

text \<open>
  The fallback \<open>re.search\<close>: four digits, a slash or a hyphen, one or two digits, a slash
  or a hyphen, one or two digits, looked for from the left, two digits tried before one.
\<close>

definition re_sep :: "pystr \<Rightarrow> pystr list" where
  "re_sep s = concat (map (\<lambda>(a, rest). if a = cp CHR ''/'' \<or> a = cp CHR ''-'' then [rest] else []) (one_char s))"

definition re_d12 :: "interpreter \<Rightarrow> pystr \<Rightarrow> (nat \<times> pystr) list" where
  "re_d12 py s =
     concat (map (\<lambda>(a, b, rest).
        if is_digit py a \<and> is_digit py b then [(10 * digit_val py a + digit_val py b, rest)] else [])
        (two_chars s)) @
     concat (map (\<lambda>(a, rest). if is_digit py a then [(digit_val py a, rest)] else []) (one_char s))"

definition match_ymd_at :: "interpreter \<Rightarrow> pystr \<Rightarrow> (nat \<times> nat \<times> nat) list" where
  "match_ymd_at py s =
     concat (map (\<lambda>(y, r1).
       concat (map (\<lambda>r2.
         concat (map (\<lambda>(m, r3).
           concat (map (\<lambda>r4.
             map (\<lambda>(d, r5). (y, m, d)) (re_d12 py r4)) (re_sep r3))) (re_d12 py r2))) (re_sep r1))) (re_Y py s))"

fun re_search_ymd :: "interpreter \<Rightarrow> pystr \<Rightarrow> (nat \<times> nat \<times> nat) option" where
  "re_search_ymd py [] = None"
| "re_search_ymd py (c # cs) =
     (case match_ymd_at py (c # cs) of
        x # _ \<Rightarrow> Some x
      | [] \<Rightarrow> re_search_ymd py cs)"

fun first_some :: "('a \<Rightarrow> 'b option) \<Rightarrow> 'a list \<Rightarrow> 'b option" where
  "first_some f [] = None"
| "first_some f (x # xs) = (case f x of Some y \<Rightarrow> Some y | None \<Rightarrow> first_some f xs)"

text \<open>\<open>_parse_date\<close>: the four formats, then the regular expression, then \<open>fromisoformat\<close>.\<close>

definition parse_date :: "interpreter \<Rightarrow> pystr \<Rightarrow> date option" where
  "parse_date py date_str0 =
     (if date_str0 = [] then None
      else
        let date_str = strip date_str0 in
        (case first_some (\<lambda>fmt. strptime py fmt date_str) formats of
           Some parsed \<Rightarrow> Some parsed
         | None \<Rightarrow>
             (case (case re_search_ymd py date_str of
                      Some (y, m, d) \<Rightarrow> mk_date y m d
                    | None \<Rightarrow> None) of
                Some parsed \<Rightarrow> Some parsed
              | None \<Rightarrow> fromisoformat py (replace_char (cp CHR ''/'') (cp CHR ''-'') date_str))))"

section \<open>Shift labels\<close>

text \<open>The keywords of the source that are not ASCII, by their code points.\<close>

definition kw_xiu :: pystr where "kw_xiu = [0x4F11]"
definition kw_xiujia :: pystr where "kw_xiujia = [0x4F11, 0x5047]"
definition kw_guitai :: pystr where "kw_guitai = [0x6AC3, 0x53F0]"
definition kw_erxian :: pystr where "kw_erxian = [0x4E8C, 0x7DDA]"
definition kw_yaoju :: pystr where "kw_yaoju = [0x85E5, 0x5C40]"
definition kw_renli :: pystr where "kw_renli = [0x4EBA, 0x529B]"
definition kw_xiaoye :: pystr where "kw_xiaoye = [0x5C0F, 0x591C]"
definition kw_daye :: pystr where "kw_daye = [0x5927, 0x591C]"
definition kw_baiban :: pystr where "kw_baiban = [0x767D, 0x73ED]"

text \<open>\<open>_normalize_shift_type\<close>, branch by branch.\<close>

definition normalize_shift_type :: "interpreter \<Rightarrow> pyval \<Rightarrow> pystr" where
  "normalize_shift_type py shift_value =
     (if \<not> truthy shift_value then ascii ''OFF''
      else
        let shift_upper = strip (upper py (py_str shift_value)) in
        if shift_upper \<in> set [ascii ''OFF'', kw_xiu, kw_xiujia, ascii ''NULL'', []] \<or> shift_upper = []
        then ascii ''OFF''
        else if list_ex (\<lambda>keyword. py_in keyword shift_upper)
                  [kw_guitai, kw_erxian, kw_yaoju, kw_renli, ascii ''COUNTER'', ascii ''DESK'',
                   ascii ''PHARMACY'']
        then ascii ''D''
        else if shift_upper \<in> set [ascii ''E'', ascii ''EVENING'', kw_xiaoye] then ascii ''E''
        else if shift_upper \<in> set [ascii ''N'', ascii ''NIGHT'', kw_daye] then ascii ''N''
        else if shift_upper \<in> set [ascii ''D'', ascii ''DAY'', kw_baiban] then ascii ''D''
        else if length shift_upper = 1 \<and> shift_upper \<in> set [ascii ''D'', ascii ''E'', ascii ''N'']
        then shift_upper
        else ascii ''D'')"

text \<open>\<open>_get_time_range\<close>: a dictionary lookup with the default \<open>'--'\<close>.\<close>

definition get_time_range :: "pystr \<Rightarrow> pystr" where
  "get_time_range shift_type =
     (case map_of [(ascii ''D'', ascii ''08:00 - 16:00''), (ascii ''E'', ascii ''16:00 - 00:00''),
                   (ascii ''N'', ascii ''00:00 - 08:00''), (ascii ''OFF'', ascii ''--'')] shift_type of
        Some r \<Rightarrow> r
      | None \<Rightarrow> ascii ''--'')"

section \<open>The fetched snapshot\<close>

text \<open>
  A body row is a dictionary from column names to cells, written as an association list, or
  something that is not a dictionary, which the service passes over.
\<close>

datatype sheet_row = NotADict | Row "(pystr \<times> pyval) list"

text \<open>\<open>row.get(col, '')\<close>.\<close>

definition row_get :: "(pystr \<times> pyval) list \<Rightarrow> pystr \<Rightarrow> pyval" where
  "row_get row col = (case map_of row col of None \<Rightarrow> PStr [] | Some v \<Rightarrow> v)"

record final_output =
  fo_success :: bool
  fo_data :: "sheet_row list"
  fo_columns :: "pystr list"

text \<open>
  The entry \<open>sheets_data['sheets']['final_output']\<close>: \<open>Missing\<close> when either key is absent
  (both \<open>get\<close> calls default to an empty dictionary), \<open>Malformed msg\<close> when one of
  \<open>'sheets'\<close>, \<open>'final_output'\<close>, \<open>'data'\<close> or \<open>'columns'\<close> holds a value of a type on which
  the service's first use of it raises, \<open>msg\<close> being the text of that exception. Every such
  use comes before the loop over the body rows.
\<close>

datatype 'a pyfield = Missing | Malformed pystr | Present 'a

text \<open>
  The dictionary the fetcher returns. For the key \<open>'error'\<close>, \<open>None\<close> is a dictionary
  without the key, \<open>Some PNone\<close> one that holds \<open>None\<close> under it and \<open>Some (PStr msg)\<close> one
  that holds a message.
\<close>

record sheets_data =
  sd_success :: bool
  sd_error :: "pyval option"
  sd_final_output :: "final_output pyfield"

text \<open>
  One call of the remote fetcher \<open>fetch_schedule_data\<close> returns a dictionary, or raises an
  exception of the class \<open>Exception\<close> with the given text. A fetcher that returns something
  that is not a dictionary is of the second kind: \<open>sheets_data.get\<close> then raises inside the
  same \<open>try\<close> block.
\<close>

datatype fetch_outcome = Returned sheets_data | Raised pystr

text \<open>
  What lies outside the repository: the remote fetcher, as the outcome of its call in each
  attempt of one sync, and the interpreter.
\<close>

record env =
  fetch_schedule_data :: "nat \<Rightarrow> fetch_outcome"
  python :: interpreter

section \<open>The database\<close>

text \<open>
  Modelled from the spec: an identity link, the class \<open>EmployeeMapping\<close>, which is not
  among the sources; its fields are those the service reads.
\<close>

record employee_mapping =
  em_schedule_def_id :: pystr
  em_is_active :: bool
  sheets_identifier :: pystr
  sheets_name_id :: "pystr option"
  userID :: pystr

datatype sync_status = Pending | Success | Failed

text \<open>
  Modelled from the spec: a ticket of the ledger, the class \<open>SyncLog\<close>, which is not among
  the sources; its fields are those of the spec's SyncTicket.
\<close>

record sync_log =
  sl_id :: nat
  sl_schedule_def_id :: pystr
  sl_tenant_id :: pystr
  sl_sync_type :: pystr
  sl_triggered_by :: "pystr option"
  sl_started_at :: rat
  sl_completed_at :: "rat option"
  sl_status :: sync_status
  sl_rows_synced :: nat
  sl_users_synced :: nat
  sl_error_message :: "pystr option"

text \<open>
  Modelled from the spec: the cache table \<open>CachedSchedule\<close>, which is not among the sources.
  It maps its key (user id, schedule definition id, date) to the two columns the service
  fills, \<open>shift_type\<close> and \<open>time_range\<close>.
\<close>

type_synonym cache_key = "pystr \<times> pystr \<times> date"
type_synonym cached_schedule = "cache_key \<rightharpoonup> pystr \<times> pystr"

text \<open>
  The tables the service reads and writes, and the clock in seconds: the targets
  (\<open>ScheduleDefinition\<close>, of which the service reads the tenant), the identity links, the
  cache and the ledger. Database operations are total here: a fault of the database itself
  is not part of the model.
\<close>

record world =
  schedule_defs :: "pystr \<rightharpoonup> pystr"
  employee_mappings :: "employee_mapping list"
  cache :: cached_schedule
  ledger :: "sync_log list"
  clock :: rat

text \<open>
  Modelled from the spec: \<open>CachedSchedule.clear_user_schedule\<close>, whose class is not among
  the sources. It deletes every entry of the user for the schedule definition.
\<close>

definition clear_user_schedule :: "pystr \<Rightarrow> pystr \<Rightarrow> cached_schedule \<Rightarrow> cached_schedule" where
  "clear_user_schedule user_id schedule_def_id c =
     (\<lambda>(u, s, d). if u = user_id \<and> s = schedule_def_id then None else c (u, s, d))"

text \<open>
  Modelled from the spec: \<open>db.session.merge\<close> of a \<open>CachedSchedule\<close> row, whose key the
  sources do not declare. The cache holds at most one entry per (user, target, date), so the
  merge inserts the entry or replaces the one with its key.
\<close>

definition merge_entry :: "cache_key \<Rightarrow> pystr \<times> pystr \<Rightarrow> cached_schedule \<Rightarrow> cached_schedule" where
  "merge_entry k v c = c(k \<mapsto> v)"

text \<open>
  Modelled from the spec: \<open>SyncLog.create_sync_log\<close>, the spec's \<open>record_start\<close>. It adds a
  pending ticket, started now, to the ledger and returns it; the ticket is known by its
  position in the ledger.
\<close>

definition create_sync_log :: "pystr \<Rightarrow> pystr \<Rightarrow> pystr \<Rightarrow> pystr option \<Rightarrow> world \<Rightarrow> nat \<times> world" where
  "create_sync_log schedule_def_id tenant_id sync_type triggered_by w =
     (let i = length (ledger w) in
      (i, w\<lparr>ledger := ledger w @
            [\<lparr>sl_id = i, sl_schedule_def_id = schedule_def_id, sl_tenant_id = tenant_id,
              sl_sync_type = sync_type, sl_triggered_by = triggered_by,
              sl_started_at = clock w, sl_completed_at = None, sl_status = Pending,
              sl_rows_synced = 0, sl_users_synced = 0, sl_error_message = None\<rparr>]\<rparr>))"

text \<open>
  Modelled from the spec: the spec's \<open>finalize\<close>, which sets the completion time, the counts
  and the error message of a ticket, and the status: success if and only if the error is
  \<open>None\<close>.
\<close>

definition finalize :: "rat \<Rightarrow> nat \<Rightarrow> nat \<Rightarrow> pystr option \<Rightarrow> sync_log \<Rightarrow> sync_log" where
  "finalize now rows users error_message l =
     l\<lparr>sl_completed_at := Some now,
       sl_status := (if error_message = None then Success else Failed),
       sl_rows_synced := rows, sl_users_synced := users,
       sl_error_message := error_message\<rparr>"

text \<open>
  Modelled from the spec: \<open>SyncLog.mark_completed\<close>, which finalizes the ticket
  \<open>sync_log\<close> the service holds, the row at position \<open>i\<close> of the ledger. Its argument
  \<open>error_message\<close> is \<open>None\<close> when the service gives none or gives \<open>None\<close>.
\<close>

definition mark_completed :: "nat \<Rightarrow> nat \<Rightarrow> nat \<Rightarrow> pystr option \<Rightarrow> world \<Rightarrow> world" where
  "mark_completed i rows users error_message w =
     (if i < length (ledger w)
      then w\<lparr>ledger := (ledger w)[i := finalize (clock w) rows users error_message (ledger w ! i)]\<rparr>
      else w)"

text \<open>
  Modelled from the spec: \<open>SyncLog.should_sync\<close>, true if no ticket of the target completed
  successfully within the last \<open>min_minutes\<close> minutes.
\<close>

definition should_sync :: "pystr \<Rightarrow> nat \<Rightarrow> world \<Rightarrow> bool" where
  "should_sync schedule_def_id min_minutes w =
     (\<not> list_ex (\<lambda>l. sl_schedule_def_id l = schedule_def_id \<and> sl_status l = Success \<and>
                      (case sl_completed_at l of
                         None \<Rightarrow> False
                       | Some t \<Rightarrow> clock w - t < of_nat (min_minutes * 60))) (ledger w))"

text \<open>
  Modelled from the spec: the most recently completed of a list of tickets, the later one in
  the list when two completed at the same time.
\<close>

fun latest :: "sync_log list \<Rightarrow> (rat \<times> sync_log) option \<Rightarrow> (rat \<times> sync_log) option" where
  "latest [] best = best"
| "latest (l # ls) best =
     (case sl_completed_at l of
        None \<Rightarrow> latest ls best
      | Some t \<Rightarrow>
          (case best of
             None \<Rightarrow> latest ls (Some (t, l))
           | Some (tb, b) \<Rightarrow> if tb \<le> t then latest ls (Some (t, l)) else latest ls best))"

text \<open>
  Modelled from the spec: \<open>SyncLog.get_last_sync\<close>, the spec's \<open>last\<close>: the most recently
  completed ticket of the target.
\<close>

definition get_last_sync :: "pystr \<Rightarrow> world \<Rightarrow> sync_log option" where
  "get_last_sync schedule_def_id w =
     map_option snd (latest (filter (\<lambda>l. sl_schedule_def_id l = schedule_def_id) (ledger w)) None)"

section \<open>The sync service\<close>

subsection \<open>Fetching with retry\<close>

text \<open>What \<open>_fetch_with_retry\<close> does besides returning: calls of the fetcher and sleeps.\<close>

datatype event = FetchCall nat | Sleep rat

text \<open>The dictionary \<open>{'success': False, 'error': msg}\<close>.\<close>

definition failure_data :: "pystr \<Rightarrow> sheets_data" where
  "failure_data msg = \<lparr>sd_success = False, sd_error = Some (PStr msg), sd_final_output = Missing\<rparr>"

text \<open>
  \<open>fetch_loop\<close> is the body of \<open>for attempt in range(max_retries)\<close> from \<open>attempt\<close> on,
  followed by the return after the loop. The trace of events so far is threaded through.
  \<open>error\<close> is \<open>str(sheets_data.get('error', ''))\<close>.
\<close>

function fetch_loop :: "env \<Rightarrow> nat \<Rightarrow> rat \<Rightarrow> nat \<Rightarrow> event list \<Rightarrow> sheets_data \<times> event list" where
  "fetch_loop e max_retries initial_delay attempt tr =
     (if attempt < max_retries then
        (case fetch_schedule_data e attempt of
           Returned sheets_data \<Rightarrow>
             if sd_success sheets_data then (sheets_data, tr @ [FetchCall attempt])
             else
               let error = (case sd_error sheets_data of None \<Rightarrow> [] | Some x \<Rightarrow> py_str x) in
               if py_in (ascii ''429'') error \<or> py_in (ascii ''quota'') (lower (python e) error) \<or>
                  py_in (ascii ''rate limit'') (lower (python e) error)
               then
                 if attempt < max_retries - 1
                 then fetch_loop e max_retries initial_delay (Suc attempt)
                        (tr @ [FetchCall attempt, Sleep (initial_delay * 2 ^ attempt)])
                 else (sheets_data, tr @ [FetchCall attempt])
               else (sheets_data, tr @ [FetchCall attempt])
         | Raised error_msg \<Rightarrow>
             if attempt < max_retries - 1 \<and>
                (py_in (ascii ''429'') error_msg \<or> py_in (ascii ''quota'') (lower (python e) error_msg))
             then fetch_loop e max_retries initial_delay (Suc attempt)
                    (tr @ [FetchCall attempt, Sleep (initial_delay * 2 ^ attempt)])
             else (failure_data error_msg, tr @ [FetchCall attempt]))
      else (failure_data (ascii ''Failed to fetch after retries''), tr))"
  by pat_completeness auto
termination
  by (relation "measure (\<lambda>(e, max_retries, initial_delay, attempt, tr). max_retries - attempt)") auto

declare fetch_loop.simps [simp del]

definition fetch_with_retry :: "env \<Rightarrow> nat \<Rightarrow> rat \<Rightarrow> sheets_data \<times> event list" where
  "fetch_with_retry e max_retries initial_delay = fetch_loop e max_retries initial_delay 0 []"

subsection \<open>Identity links\<close>

text \<open>
  The dictionary \<open>identifier_to_user\<close> is an association list in insertion order, as a
  Python dictionary keeps it: assigning to a key that is present replaces the value where
  the key stands, assigning to a new key appends.
\<close>

definition add_part :: "pystr \<Rightarrow> pystr \<Rightarrow> (pystr \<times> pystr) list \<Rightarrow> (pystr \<times> pystr) list" where
  "add_part uid part d = (if strip part \<noteq> [] then AList.update (strip part) uid d else d)"

definition add_mapping :: "employee_mapping \<Rightarrow> (pystr \<times> pystr) list \<Rightarrow> (pystr \<times> pystr) list" where
  "add_mapping mapping d =
     (let d1 = AList.update (sheets_identifier mapping) (userID mapping) d in
      case sheets_name_id mapping of
        None \<Rightarrow> d1
      | Some name_id \<Rightarrow>
          if name_id = [] then d1
          else
            let d2 = AList.update name_id (userID mapping) d1 in
            if cp CHR ''/'' \<in> set name_id
            then fold (add_part (userID mapping)) (split_on (cp CHR ''/'') name_id) d2
            else d2)"

definition build_identifier_to_user :: "employee_mapping list \<Rightarrow> (pystr \<times> pystr) list" where
  "build_identifier_to_user mappings = fold add_mapping mappings []"

definition active_mappings :: "pystr \<Rightarrow> world \<Rightarrow> employee_mapping list" where
  "active_mappings schedule_def_id w =
     filter (\<lambda>m. em_schedule_def_id m = schedule_def_id \<and> em_is_active m) (employee_mappings w)"

text \<open>
  Finding the user of a row's identifier: the identifier is stripped, then looked up
  exactly, else the first key in insertion order is taken that contains the stripped
  identifier or is contained in it.
\<close>

definition partial_match :: "pystr \<Rightarrow> pystr \<times> pystr \<Rightarrow> bool" where
  "partial_match identifier_str kv = (py_in identifier_str (fst kv) \<or> py_in (fst kv) identifier_str)"

definition resolve_user :: "(pystr \<times> pystr) list \<Rightarrow> pystr \<Rightarrow> pystr option" where
  "resolve_user identifier_to_user identifier =
     (let identifier_str = strip identifier in
      case map_of identifier_to_user identifier_str of
        Some uid \<Rightarrow> Some uid
      | None \<Rightarrow> map_option snd (find (partial_match identifier_str) identifier_to_user))"

subsection \<open>Parsing and storing\<close>

text \<open>The three names of the identifier column that are not ASCII.\<close>

definition ident_col1 :: pystr where
  "ident_col1 = [0x54E1, 0x5DE5, cp CHR ''('', 0x59D3, 0x540D, cp CHR ''/'', cp CHR ''I'', cp CHR ''D'',
                 cp CHR '')'']"

definition ident_col2 :: pystr where
  "ident_col2 = [0x54E1, 0x5DE5, 0x59D3, 0x540D, cp CHR ''/'', cp CHR ''I'', cp CHR ''D'']"

definition ident_col3 :: pystr where
  "ident_col3 = [0x54E1, 0x5DE5]"

definition identifier_candidates :: "pystr list" where
  "identifier_candidates =
     [ident_col1, ident_col2, ident_col3, ascii ''username'', ascii ''employee_id'', ascii ''name'']"

definition find_identifier_column :: "pystr list \<Rightarrow> pystr option" where
  "find_identifier_column output_columns = find (\<lambda>col. col \<in> set output_columns) identifier_candidates"

text \<open>One pass of the loop over the date columns, on the cache and the count of rows.\<close>

definition store_cell ::
  "env \<Rightarrow> pystr \<Rightarrow> pystr \<Rightarrow> (pystr \<times> pyval) list \<Rightarrow> pystr \<Rightarrow> cached_schedule \<times> nat \<Rightarrow> cached_schedule \<times> nat" where
  "store_cell e schedule_def_id user_id row date_col st =
     (case parse_date (python e) date_col of
        None \<Rightarrow> st
      | Some date_obj \<Rightarrow>
          (case row_get row date_col of
             PNone \<Rightarrow> st
           | PStr v \<Rightarrow>
               let shift_value = strip v in
               if shift_value = [] \<or> upper (python e) shift_value = ascii ''NULL'' then st
               else
                 let shift_type = normalize_shift_type (python e) (PStr shift_value);
                     time_range = get_time_range shift_type
                 in (merge_entry (user_id, schedule_def_id, date_obj) (shift_type, time_range) (fst st),
                     snd st + 1)))"

text \<open>
  One pass of the loop over the body rows, on the cache, the count of rows and the users
  synced so far (a set in the source; here a list without repetitions).
\<close>

definition store_row ::
  "env \<Rightarrow> pystr \<Rightarrow> (pystr \<times> pystr) list \<Rightarrow> pystr \<Rightarrow> pystr list \<Rightarrow> sheet_row \<Rightarrow>
   cached_schedule \<times> nat \<times> pystr list \<Rightarrow> cached_schedule \<times> nat \<times> pystr list" where
  "store_row e schedule_def_id identifier_to_user identifier_column output_columns r st =
     (case r of
        NotADict \<Rightarrow> st
      | Row row \<Rightarrow>
          let identifier = row_get row identifier_column in
          if \<not> truthy identifier then st
          else
            (case resolve_user identifier_to_user (py_str identifier) of
               None \<Rightarrow> st
             | Some user_id \<Rightarrow>
                 if user_id = [] then st
                 else
                   let (c, rows_synced, synced_users) = st;
                       date_columns = filter (\<lambda>col. col \<noteq> identifier_column) output_columns;
                       c1 = clear_user_schedule user_id schedule_def_id c;
                       (c2, rows_synced2) =
                          fold (store_cell e schedule_def_id user_id row) date_columns (c1, rows_synced)
                   in (c2, rows_synced2, List.insert user_id synced_users)))"

text \<open>
  \<open>_store_schedule_data\<close>: \<open>Inl msg\<close> is an exception with text \<open>msg\<close>, \<open>Inr\<close> the pair
  (rows_synced, users_synced) with the database after the commit.
\<close>

definition store_schedule_data :: "env \<Rightarrow> pystr \<Rightarrow> sheets_data \<Rightarrow> world \<Rightarrow> pystr + (nat \<times> nat) \<times> world" where
  "store_schedule_data e schedule_def_id sheets w =
     (case sd_final_output sheets of
        Malformed msg \<Rightarrow> Inl msg
      | Missing \<Rightarrow> Inr ((0, 0), w)
      | Present final \<Rightarrow>
          if \<not> fo_success final then Inr ((0, 0), w)
          else if fo_data final = [] \<or> fo_columns final = [] then Inr ((0, 0), w)
          else
            let identifier_to_user = build_identifier_to_user (active_mappings schedule_def_id w) in
            (case find_identifier_column (fo_columns final) of
               None \<Rightarrow> Inr ((0, 0), w)
             | Some identifier_column \<Rightarrow>
                 let (c, rows_synced, synced_users) =
                       fold (store_row e schedule_def_id identifier_to_user identifier_column (fo_columns final))
                            (fo_data final) (cache w, 0, [])
                 in Inr ((rows_synced, length synced_users), w\<lparr>cache := c\<rparr>)))"

subsection \<open>The orchestrator\<close>

text \<open>
  The dictionary \<open>sync_schedule_data\<close> returns; a key the source leaves out is \<open>None\<close>
  (\<open>False\<close> for \<open>skipped\<close>), so that \<open>error = Some PNone\<close> is a result with \<open>None\<close> under
  the key \<open>'error'\<close>. The free-text \<open>message\<close> of a skipped sync is left out.
\<close>

record sync_result =
  success :: bool
  skipped :: bool
  rows_synced :: "nat option"
  users_synced :: "nat option"
  last_synced_at :: "rat option"
  sync_log_id :: "nat option"
  error :: "pyval option"

definition failure_result :: "pyval \<Rightarrow> sync_result" where
  "failure_result error_msg =
     \<lparr>success = False, skipped = False, rows_synced = None, users_synced = None,
      last_synced_at = None, sync_log_id = None, error = Some error_msg\<rparr>"

definition skipped_result :: "rat option \<Rightarrow> sync_result" where
  "skipped_result t =
     \<lparr>success = True, skipped = True, rows_synced = None, users_synced = None,
      last_synced_at = t, sync_log_id = None, error = None\<rparr>"

definition success_result :: "nat \<Rightarrow> nat \<Rightarrow> rat option \<Rightarrow> nat \<Rightarrow> sync_result" where
  "success_result rows users t i =
     \<lparr>success = True, skipped = False, rows_synced = Some rows, users_synced = Some users,
      last_synced_at = t, sync_log_id = Some i, error = None\<rparr>"

text \<open>The value given as \<open>error_message\<close>, as the ledger takes it.\<close>

fun message_of :: "pyval \<Rightarrow> pystr option" where
  "message_of PNone = None"
| "message_of (PStr msg) = Some msg"

text \<open>\<open>time.sleep\<close> is the only thing that takes time.\<close>

fun elapse :: "event list \<Rightarrow> rat" where
  "elapse [] = 0"
| "elapse (FetchCall k # evs) = elapse evs"
| "elapse (Sleep d # evs) = d + elapse evs"

definition completed_at_of :: "nat \<Rightarrow> world \<Rightarrow> rat option" where
  "completed_at_of i w = (if i < length (ledger w) then sl_completed_at (ledger w ! i) else None)"

text \<open>
  \<open>sync_schedule_data\<close>, with \<open>_fetch_with_retry\<close> called with its defaults
  \<open>max_retries = 3\<close> and \<open>initial_delay = 2.0\<close>. The result comes with the events of the
  fetch and the database afterwards. After a failed fetch \<open>error_msg\<close> is
  \<open>sheets_data.get('error', 'Unknown error')\<close>, which is \<open>None\<close> when the dictionary holds
  \<open>None\<close> under that key.
\<close>

definition sync_schedule_data ::
  "env \<Rightarrow> pystr \<Rightarrow> pystr \<Rightarrow> pystr option \<Rightarrow> bool \<Rightarrow> world \<Rightarrow> sync_result \<times> event list \<times> world" where
  "sync_schedule_data e schedule_def_id sync_type triggered_by force w =
     (case schedule_defs w schedule_def_id of
        None \<Rightarrow>
          (failure_result (PStr (ascii ''Schedule definition not found: '' @ schedule_def_id)), [], w)
      | Some tenantID \<Rightarrow>
          if \<not> force \<and> \<not> should_sync schedule_def_id 10 w
          then (skipped_result
                  (case get_last_sync schedule_def_id w of None \<Rightarrow> None | Some l \<Rightarrow> sl_completed_at l),
                [], w)
          else
            let (i, w1) = create_sync_log schedule_def_id tenantID sync_type triggered_by w;
                (sheets, tr) = fetch_with_retry e 3 2;
                w2 = w1\<lparr>clock := clock w1 + elapse tr\<rparr>
            in
            if \<not> sd_success sheets then
              let error_msg = (case sd_error sheets of None \<Rightarrow> PStr (ascii ''Unknown error'') | Some x \<Rightarrow> x);
                  w3 = mark_completed i 0 0 (message_of error_msg) w2
              in (failure_result error_msg, tr, w3)
            else
              (case store_schedule_data e schedule_def_id sheets w2 of
                 Inr ((rows, users), w3) \<Rightarrow>
                   let w4 = mark_completed i rows users None w3
                   in (success_result rows users (completed_at_of i w4) i, tr, w4)
               | Inl error_msg \<Rightarrow>
                   let w3 = mark_completed i 0 0 (Some error_msg) w2
                   in (failure_result (PStr error_msg), tr, w3)))"

section \<open>Notions used to state the properties\<close>

text \<open>
  The user a body row is stored for, if it gets past every guard of the loop: the row is a
  dictionary, its identifier is not empty and resolves to a user id that is not empty.
\<close>

definition row_user :: "(pystr \<times> pystr) list \<Rightarrow> pystr \<Rightarrow> sheet_row \<Rightarrow> pystr option" where
  "row_user identifier_to_user identifier_column r =
     (case r of
        NotADict \<Rightarrow> None
      | Row row \<Rightarrow>
          if \<not> truthy (row_get row identifier_column) then None
          else (case resolve_user identifier_to_user (py_str (row_get row identifier_column)) of
                  None \<Rightarrow> None
                | Some user_id \<Rightarrow> if user_id = [] then None else Some user_id))"

definition row_dict :: "sheet_row \<Rightarrow> (pystr \<times> pyval) list" where
  "row_dict r = (case r of NotADict \<Rightarrow> [] | Row row \<Rightarrow> row)"

text \<open>
  A cell is blank when the loop over the date columns passes over it: its value is missing
  or \<open>None\<close>, or its stripped text is empty or is NULL in upper case.
\<close>

definition blank_cell :: "interpreter \<Rightarrow> (pystr \<times> pyval) list \<Rightarrow> pystr \<Rightarrow> bool" where
  "blank_cell py row date_col =
     (case row_get row date_col of
        PNone \<Rightarrow> True
      | PStr v \<Rightarrow> strip v = [] \<or> upper py (strip v) = ascii ''NULL'')"

text \<open>
  The shift code a cell is stored under, if it is not blank: the classifier's answer to its
  stripped label.
\<close>

definition label_code :: "interpreter \<Rightarrow> pyval \<Rightarrow> pystr option" where
  "label_code py v =
     (case v of
        PNone \<Rightarrow> None
      | PStr s \<Rightarrow>
          if strip s = [] \<or> upper py (strip s) = ascii ''NULL'' then None
          else Some (normalize_shift_type py (PStr (strip s))))"

text \<open>The entry a cell gives rise to: the date of its column, the shift code and the time range.\<close>

definition cell_entry :: "interpreter \<Rightarrow> (pystr \<times> pyval) list \<Rightarrow> pystr \<Rightarrow> (date \<times> pystr \<times> pystr) option" where
  "cell_entry py row date_col =
     (case parse_date py date_col of
        None \<Rightarrow> None
      | Some date_obj \<Rightarrow>
          (case label_code py (row_get row date_col) of
             None \<Rightarrow> None
           | Some shift_type \<Rightarrow> Some (date_obj, shift_type, get_time_range shift_type)))"

definition row_entries ::
  "interpreter \<Rightarrow> pystr \<Rightarrow> pystr list \<Rightarrow> (pystr \<times> pyval) list \<Rightarrow> (date \<times> pystr \<times> pystr) list" where
  "row_entries py identifier_column output_columns row =
     List.map_filter (cell_entry py row) (filter (\<lambda>col. col \<noteq> identifier_column) output_columns)"

text \<open>The schedule a row holds: for each date the entry of the last cell with that date.\<close>

definition row_schedule ::
  "interpreter \<Rightarrow> pystr \<Rightarrow> pystr list \<Rightarrow> (pystr \<times> pyval) list \<Rightarrow> date \<rightharpoonup> pystr \<times> pystr" where
  "row_schedule py identifier_column output_columns row =
     map_of (rev (row_entries py identifier_column output_columns row))"

text \<open>The last body row stored for a user.\<close>

definition last_row_of :: "(pystr \<times> pystr) list \<Rightarrow> pystr \<Rightarrow> sheet_row list \<Rightarrow> pystr \<Rightarrow> sheet_row option" where
  "last_row_of identifier_to_user identifier_column rows u =
     find (\<lambda>r. row_user identifier_to_user identifier_column r = Some u) (rev rows)"

text \<open>
  The snapshot as the loop over the body rows sees it: the identifier column, the header and
  the body rows, when \<open>_store_schedule_data\<close> gets as far as that loop.
\<close>

definition snapshot_rows :: "sheets_data \<Rightarrow> (pystr \<times> pystr list \<times> sheet_row list) option" where
  "snapshot_rows sheets =
     (case sd_final_output sheets of
        Present final \<Rightarrow>
          if fo_success final \<and> fo_data final \<noteq> [] \<and> fo_columns final \<noteq> []
          then (case find_identifier_column (fo_columns final) of
                  None \<Rightarrow> None
                | Some identifier_column \<Rightarrow> Some (identifier_column, fo_columns final, fo_data final))
          else None
      | _ \<Rightarrow> None)"

text \<open>
  The strings by which an identity link is found exactly: its raw identifier, its full
  name/ID string and the tokens that string decomposes into.
\<close>

definition link_keys :: "employee_mapping \<Rightarrow> pystr set" where
  "link_keys m =
     {sheets_identifier m} \<union>
     (case sheets_name_id m of
        None \<Rightarrow> {}
      | Some name_id \<Rightarrow>
          if name_id = [] then {}
          else {name_id} \<union>
               (if cp CHR ''/'' \<in> set name_id
                then {t. t \<noteq> [] \<and> t \<in> strip ` set (split_on (cp CHR ''/'') name_id)}
                else {}))"

text \<open>The test for a rate-limit error that \<open>_fetch_with_retry\<close> applies to a returned error.\<close>

definition rate_limited :: "interpreter \<Rightarrow> pystr \<Rightarrow> bool" where
  "rate_limited py msg =
     (py_in (ascii ''429'') msg \<or> py_in (ascii ''quota'') (lower py msg) \<or>
      py_in (ascii ''rate limit'') (lower py msg))"

text \<open>The text of a returned error, as that test sees it.\<close>

definition error_text :: "sheets_data \<Rightarrow> pystr" where
  "error_text sheets = (case sd_error sheets of None \<Rightarrow> [] | Some x \<Rightarrow> py_str x)"

text \<open>The error a failed fetch is reported with.\<close>

definition reported_error :: "sheets_data \<Rightarrow> pyval" where
  "reported_error sheets = (case sd_error sheets of None \<Rightarrow> PStr (ascii ''Unknown error'') | Some x \<Rightarrow> x)"

text \<open>
  The database once the ticket is open and the fetch, with the events \<open>tr\<close>, is over:
  one more pending ticket in the ledger, and the clock moved on by the sleeps.
\<close>

definition opened :: "pystr \<Rightarrow> pystr \<Rightarrow> pystr \<Rightarrow> pystr option \<Rightarrow> event list \<Rightarrow> world \<Rightarrow> world" where
  "opened schedule_def_id tenant_id sync_type triggered_by tr w =
     (snd (create_sync_log schedule_def_id tenant_id sync_type triggered_by w))
       \<lparr>clock := clock w + elapse tr\<rparr>"

text \<open>
  The cache that whole-set replacement leads to: for the target \<open>sid\<close>, a user with a body
  row gets the schedule of the last such row and nothing else; every other entry is kept.
\<close>

definition replaced ::
  "interpreter \<Rightarrow> pystr \<Rightarrow> (pystr \<times> pystr) list \<Rightarrow> pystr \<Rightarrow> pystr list \<Rightarrow> sheet_row list \<Rightarrow>
   cached_schedule \<Rightarrow> cached_schedule" where
  "replaced py sid identifier_to_user identifier_column output_columns rows c =
     (\<lambda>(u, s, d).
        if s = sid
        then (case last_row_of identifier_to_user identifier_column rows u of
                Some r \<Rightarrow> row_schedule py identifier_column output_columns (row_dict r) d
              | None \<Rightarrow> c (u, s, d))
        else c (u, s, d))"

text \<open>The number of entries written for the rows that resolve, and the users they resolve to.\<close>

definition entries_written ::
  "interpreter \<Rightarrow> (pystr \<times> pystr) list \<Rightarrow> pystr \<Rightarrow> pystr list \<Rightarrow> sheet_row list \<Rightarrow> nat" where
  "entries_written py identifier_to_user identifier_column output_columns rows =
     sum_list (map (\<lambda>r. length (row_entries py identifier_column output_columns (row_dict r)))
                   (filter (\<lambda>r. row_user identifier_to_user identifier_column r \<noteq> None) rows))"

definition users_resolved :: "(pystr \<times> pystr) list \<Rightarrow> pystr \<Rightarrow> sheet_row list \<Rightarrow> pystr list" where
  "users_resolved identifier_to_user identifier_column rows =
     remdups (List.map_filter (row_user identifier_to_user identifier_column) rows)"

text \<open>
  Two body rows hold the same codes when they have the same identifier and, in every other
  column of the header, cells that are both blank or are stored under the same shift code.
\<close>

definition same_codes :: "interpreter \<Rightarrow> pystr \<Rightarrow> pystr list \<Rightarrow> sheet_row \<Rightarrow> sheet_row \<Rightarrow> bool" where
  "same_codes py identifier_column output_columns r r' =
     (case (r, r') of
        (Row row, Row row') \<Rightarrow>
          row_get row identifier_column = row_get row' identifier_column \<and>
          list_all (\<lambda>col. col = identifier_column \<or>
                          label_code py (row_get row col) = label_code py (row_get row' col))
                   output_columns
      | (NotADict, NotADict) \<Rightarrow> True
      | _ \<Rightarrow> False)"

text \<open>
  The ticket as \<open>create_sync_log\<close> opens it, and the database once that ticket is finalized
  after a fetch with the events \<open>tr\<close>.
\<close>

definition ticket :: "pystr \<Rightarrow> pystr \<Rightarrow> pystr \<Rightarrow> pystr option \<Rightarrow> world \<Rightarrow> sync_log" where
  "ticket sid tenant ty tb w =
     \<lparr>sl_id = length (ledger w), sl_schedule_def_id = sid, sl_tenant_id = tenant,
      sl_sync_type = ty, sl_triggered_by = tb, sl_started_at = clock w,
      sl_completed_at = None, sl_status = Pending, sl_rows_synced = 0,
      sl_users_synced = 0, sl_error_message = None\<rparr>"

definition finished :: "pystr \<Rightarrow> pystr \<Rightarrow> pystr \<Rightarrow> pystr option \<Rightarrow> event list \<Rightarrow> nat \<Rightarrow> nat \<Rightarrow> pystr option \<Rightarrow> world \<Rightarrow> world" where
  "finished sid tenant ty tb tr rows users err w =
     w\<lparr>ledger := ledger w @ [finalize (clock w + elapse tr) rows users err (ticket sid tenant ty tb w)],
       clock := clock w + elapse tr\<rparr>"


section \<open>Example data\<close>

text \<open>
  The text of the examples is ASCII, apart from one ideographic space, so the tables of the
  interpreter outside ASCII are not consulted on it: they are left empty here. The headers
  of the examples are parsed by the first format, so \<open>fromisoformat\<close> is not reached.
\<close>

definition plain :: interpreter where
  "plain = \<lparr>to_upper_full = (\<lambda>c. [c]), str_lower = (\<lambda>s. s), unicode_decimal = (\<lambda>c. None),
            fromisoformat = (\<lambda>s. None)\<rparr>"

definition link_E04 :: employee_mapping where
  "link_E04 = \<lparr>em_schedule_def_id = ascii ''sched-1'', em_is_active = True,
                sheets_identifier = ascii ''E04'', sheets_name_id = None, userID = ascii ''user-004''\<rparr>"

definition link_E0 :: employee_mapping where
  "link_E0 = \<lparr>em_schedule_def_id = ascii ''sched-1'', em_is_active = True,
               sheets_identifier = ascii ''E0'', sheets_name_id = None, userID = ascii ''user-099''\<rparr>"

text \<open>A link whose stored identifier ends in a space.\<close>

definition link_E04_space :: employee_mapping where
  "link_E04_space = \<lparr>em_schedule_def_id = ascii ''sched-1'', em_is_active = True,
                      sheets_identifier = ascii ''E04 '', sheets_name_id = None,
                      userID = ascii ''user-004''\<rparr>"

text \<open>
  One target with two identity links; the cache holds day 1 as D, day 2 as E and day 3 as N
  for user-004.
\<close>

definition ex_world :: world where
  "ex_world =
     \<lparr>schedule_defs = [ascii ''sched-1'' \<mapsto> ascii ''tenant-1''],
      employee_mappings = [link_E04, link_E0],
      cache = [(ascii ''user-004'', ascii ''sched-1'', Date 2025 11 1) \<mapsto> (ascii ''D'', ascii ''08:00 - 16:00''),
               (ascii ''user-004'', ascii ''sched-1'', Date 2025 11 2) \<mapsto> (ascii ''E'', ascii ''16:00 - 00:00''),
               (ascii ''user-004'', ascii ''sched-1'', Date 2025 11 3) \<mapsto> (ascii ''N'', ascii ''00:00 - 08:00'')],
      ledger = [],
      clock = 0\<rparr>"

definition snapshot_of :: "pystr list \<Rightarrow> sheet_row list \<Rightarrow> sheets_data" where
  "snapshot_of cols rows =
     \<lparr>sd_success = True, sd_error = None,
      sd_final_output = Present \<lparr>fo_success = True, fo_data = rows, fo_columns = cols\<rparr>\<rparr>"

text \<open>A remote that answers every call with the same dictionary.\<close>

definition remote :: "sheets_data \<Rightarrow> env" where
  "remote sheets = \<lparr>fetch_schedule_data = (\<lambda>attempt. Returned sheets), python = plain\<rparr>"

text \<open>A remote whose every call raises an exception with the given text.\<close>

definition raising :: "pystr \<Rightarrow> env" where
  "raising msg = \<lparr>fetch_schedule_data = (\<lambda>attempt. Raised msg), python = plain\<rparr>"

text \<open>The dictionary \<open>{'success': False, 'error': None}\<close>.\<close>

definition failure_none :: sheets_data where
  "failure_none = \<lparr>sd_success = False, sd_error = Some PNone, sd_final_output = Missing\<rparr>"

definition ex_header :: "pystr list" where
  "ex_header = [ascii ''name'', ascii ''2025-11-01'', ascii ''2025-11-05'']"

definition row_of :: "pystr \<Rightarrow> pystr \<Rightarrow> pystr \<Rightarrow> sheet_row" where
  "row_of ident day1 day5 =
     Row [(ascii ''name'', PStr ident), (ascii ''2025-11-01'', PStr day1), (ascii ''2025-11-05'', PStr day5)]"

text \<open>The snapshot of the full-replacement scenario: day 1 is D and day 5 is OFF for E04.\<close>

definition snapshot_U :: sheets_data where
  "snapshot_U = snapshot_of ex_header [row_of (ascii ''E04'') (ascii ''D'') (ascii ''OFF'')]"

text \<open>A snapshot whose header has no identifier column.\<close>

definition snapshot_no_ident :: sheets_data where
  "snapshot_no_ident =
     snapshot_of [ascii ''id'', ascii ''2025-11-01'']
       [Row [(ascii ''id'', PStr (ascii ''E04'')), (ascii ''2025-11-01'', PStr (ascii ''D''))]]"

definition run_no_ident :: "sync_result \<times> event list \<times> world" where
  "run_no_ident =
     sync_schedule_data (remote snapshot_no_ident) (ascii ''sched-1'') (ascii ''manual'') None True ex_world"

definition run_missing_target :: "sync_result \<times> event list \<times> world" where
  "run_missing_target =
     sync_schedule_data (remote snapshot_U) (ascii ''sched-404'') (ascii ''manual'') None True ex_world"


definition run_raised :: "sync_result \<times> event list \<times> world" where
  "run_raised =
     sync_schedule_data (raising (ascii ''connection reset'')) (ascii ''sched-1'') (ascii ''auto'') None False
       ex_world"

definition run_error_none :: "sync_result \<times> event list \<times> world" where
  "run_error_none =
     sync_schedule_data (remote failure_none) (ascii ''sched-1'') (ascii ''auto'') None False ex_world"

definition run_U :: "sync_result \<times> event list \<times> world" where
  "run_U = sync_schedule_data (remote snapshot_U) (ascii ''sched-1'') (ascii ''manual'') None True ex_world"

definition run_U_again :: "sync_result \<times> event list \<times> world" where
  "run_U_again =
     sync_schedule_data (remote snapshot_U) (ascii ''sched-1'') (ascii ''manual'') None True (snd (snd run_U))"

text \<open>Three body rows, the second with an identifier no link matches.\<close>

definition three_rows :: "sheet_row list" where
  "three_rows = [row_of (ascii ''E04'') (ascii ''D'') (ascii ''OFF''),
                 row_of (ascii ''zzz'') (ascii ''N'') (ascii ''N''),
                 row_of (ascii ''E0'') (ascii ''E'') []]"

definition run_three :: "sync_result \<times> event list \<times> world" where
  "run_three =
     sync_schedule_data (remote (snapshot_of ex_header three_rows)) (ascii ''sched-1'') (ascii ''manual'')
       None True ex_world"

text \<open>The same with one more row that no link matches.\<close>

definition run_four :: "sync_result \<times> event list \<times> world" where
  "run_four =
     sync_schedule_data
       (remote (snapshot_of ex_header (three_rows @ [row_of (ascii ''yyy'') (ascii ''D'') (ascii ''D'')])))
       (ascii ''sched-1'') (ascii ''manual'') None True ex_world"

text \<open>Three body rows of which two resolve to the same user, the second by substring.\<close>

definition same_user_rows :: "sheet_row list" where
  "same_user_rows = [row_of (ascii ''E04'') (ascii ''D'') (ascii ''OFF''),
                     row_of (ascii ''E041'') (ascii ''N'') (ascii ''N''),
                     row_of (ascii ''zzz'') (ascii ''E'') (ascii ''E'')]"

definition run_same_user :: "sync_result \<times> event list \<times> world" where
  "run_same_user =
     sync_schedule_data (remote (snapshot_of ex_header same_user_rows)) (ascii ''sched-1'') (ascii ''manual'')
       None True ex_world"

definition ex_links :: "(pystr \<times> pystr) list" where
  "ex_links = build_identifier_to_user (active_mappings (ascii ''sched-1'') ex_world)"

text \<open>
  Two body rows that resolve to the same user, E04 exactly and E041 by substring: the first
  has a label on day 1 only, the second on day 5 only.
\<close>

definition split_rows :: "sheet_row list" where
  "split_rows = [row_of (ascii ''E04'') (ascii ''D'') [], row_of (ascii ''E041'') [] (ascii ''N'')]"

definition run_split :: "sync_result \<times> event list \<times> world" where
  "run_split =
     sync_schedule_data (remote (snapshot_of ex_header split_rows)) (ascii ''sched-1'') (ascii ''manual'')
       None True ex_world"

text \<open>
  Two body rows that resolve to the same user, the first with a blank cell on day 5 and the
  second with a label there.
\<close>

definition covered_rows :: "sheet_row list" where
  "covered_rows = [row_of (ascii ''E041'') (ascii ''D'') [], row_of (ascii ''E04'') (ascii ''D'') (ascii ''N'')]"

definition run_covered :: "sync_result \<times> event list \<times> world" where
  "run_covered =
     sync_schedule_data (remote (snapshot_of ex_header covered_rows)) (ascii ''sched-1'') (ascii ''manual'')
       None True ex_world"

text \<open>Two snapshots that differ only in the raw label of day 5.\<close>

definition snapshot_day :: sheets_data where
  "snapshot_day = snapshot_of ex_header [row_of (ascii ''E04'') (ascii ''D'') (ascii ''DAY'')]"

definition snapshot_morning :: sheets_data where
  "snapshot_morning = snapshot_of ex_header [row_of (ascii ''E04'') (ascii ''D'') (ascii ''morning shift'')]"

definition run_day :: "sync_result \<times> event list \<times> world" where
  "run_day =
     sync_schedule_data (remote snapshot_day) (ascii ''sched-1'') (ascii ''manual'') None True ex_world"

definition run_morning :: "sync_result \<times> event list \<times> world" where
  "run_morning =
     sync_schedule_data (remote snapshot_morning) (ascii ''sched-1'') (ascii ''manual'') None True ex_world"

text \<open>
  A cell that is blank: the text null between an ideographic space, U+3000, and a space.
\<close>

definition null_label :: pystr where
  "null_label = 0x3000 # ascii ''null ''"

definition run_blank :: "sync_result \<times> event list \<times> world" where
  "run_blank =
     sync_schedule_data (remote (snapshot_of ex_header [row_of (ascii ''E04'') (ascii ''D'') null_label]))
       (ascii ''sched-1'') (ascii ''manual'') None True ex_world"

section \<open>Lemmas\<close>

subsection \<open>Literals\<close>

lemma ascii_eq [simp]: "ascii a = ascii b \<longleftrightarrow> a = b"
proof -
  have "inj (of_char :: char \<Rightarrow> nat)" by (simp add: inj_on_def)
  then have "inj (map (of_char :: char \<Rightarrow> nat))" by simp
  then show ?thesis unfolding ascii_def by (rule inj_eq)
qed

lemma ascii_Nil [simp]: "ascii [] = []" "ascii s = [] \<longleftrightarrow> s = []" "[] = ascii s \<longleftrightarrow> s = []"
  by (auto simp: ascii_def)

lemma ascii_Cons: "ascii (c # cs) = of_char c # ascii cs"
  by (simp add: ascii_def)

lemma ascii_append [simp]: "ascii a @ ascii b = ascii (a @ b)"
  by (simp add: ascii_def)

subsection \<open>Storing\<close>

lemma store_cell_eq:
  "store_cell e sid u row col st =
     (case cell_entry (python e) row col of
        None \<Rightarrow> st
      | Some (d, v) \<Rightarrow> (merge_entry (u, sid, d) v (fst st), snd st + 1))"
  by (simp add: store_cell_def cell_entry_def label_code_def Let_def split: option.splits pyval.splits)

lemma map_filter_append: "List.map_filter f (xs @ ys) = List.map_filter f xs @ List.map_filter f ys"
  by (simp add: List.map_filter_def)

lemma fold_store_cell:
  "fold (store_cell e sid u row) cols (c, n) =
     ((\<lambda>(u', s', d). if u' = u \<and> s' = sid
          then (case map_of (rev (List.map_filter (cell_entry (python e) row) cols)) d of
                  Some v \<Rightarrow> Some v
                | None \<Rightarrow> c (u', s', d))
          else c (u', s', d)),
      n + length (List.map_filter (cell_entry (python e) row) cols))"
proof (induction cols rule: rev_induct)
  case Nil
  show ?case by (auto simp: map_filter_simps fun_eq_iff)
next
  case (snoc col cols)
  have step: "fold (store_cell e sid u row) (cols @ [col]) (c, n) =
              store_cell e sid u row col (fold (store_cell e sid u row) cols (c, n))"
    by simp
  show ?case
  proof (cases "cell_entry (python e) row col")
    case None
    then show ?thesis
      unfolding step snoc.IH
      by (auto simp: store_cell_eq map_filter_append map_filter_simps fun_eq_iff)
  next
    case (Some dv)
    obtain d v where dv: "dv = (d, v)" by (cases dv)
    with Some show ?thesis
      unfolding step snoc.IH
      by (auto simp: store_cell_eq map_filter_append map_filter_simps merge_entry_def fun_eq_iff)
  qed
qed

lemma store_row_eq:
  "store_row e sid itu idc cols r (c, n, us) =
     (case row_user itu idc r of
        None \<Rightarrow> (c, n, us)
      | Some u \<Rightarrow>
          ((\<lambda>(u', s', d). if u' = u \<and> s' = sid then row_schedule (python e) idc cols (row_dict r) d
                          else c (u', s', d)),
           n + length (row_entries (python e) idc cols (row_dict r)),
           List.insert u us))"
  by (auto simp: store_row_def row_user_def row_dict_def fold_store_cell clear_user_schedule_def
        row_schedule_def row_entries_def fun_eq_iff Let_def
      split: sheet_row.splits option.splits)

lemma last_row_of_snoc:
  "last_row_of itu idc (rows @ [r]) u =
     (if row_user itu idc r = Some u then Some r else last_row_of itu idc rows u)"
  by (simp add: last_row_of_def)

lemma fold_store_row_cache:
  "fst (fold (store_row e sid itu idc cols) rows (c, n, us)) = replaced (python e) sid itu idc cols rows c"
proof (induction rows rule: rev_induct)
  case Nil
  show ?case by (simp add: replaced_def last_row_of_def fun_eq_iff)
next
  case (snoc r rows)
  obtain c' n' us' where st: "fold (store_row e sid itu idc cols) rows (c, n, us) = (c', n', us')"
    by (cases "fold (store_row e sid itu idc cols) rows (c, n, us)")
  with snoc have c': "c' = replaced (python e) sid itu idc cols rows c" by simp
  show ?case
    by (auto simp: st c' store_row_eq last_row_of_snoc replaced_def fun_eq_iff split: option.splits)
qed

lemma fold_store_row_counts_eq:
  "snd (fold (store_row e sid itu idc cols) rows (c, n, us)) =
     (n + entries_written (python e) itu idc cols rows,
      fold (\<lambda>r us. case row_user itu idc r of None \<Rightarrow> us | Some u \<Rightarrow> List.insert u us) rows us)"
proof (induction rows rule: rev_induct)
  case Nil
  show ?case by (simp add: entries_written_def)
next
  case (snoc r rows)
  obtain c' n' us' where st: "fold (store_row e sid itu idc cols) rows (c, n, us) = (c', n', us')"
    by (cases "fold (store_row e sid itu idc cols) rows (c, n, us)")
  with snoc have eqs: "n' = n + entries_written (python e) itu idc cols rows"
    "us' = fold (\<lambda>r us. case row_user itu idc r of None \<Rightarrow> us | Some u \<Rightarrow> List.insert u us) rows us"
    by simp_all
  show ?case
    by (auto simp: st eqs store_row_eq entries_written_def split: option.splits)
qed

lemma fold_insert_users:
  "distinct us \<Longrightarrow>
   distinct (fold (\<lambda>r us. case row_user itu idc r of None \<Rightarrow> us | Some u \<Rightarrow> List.insert u us) rows us) \<and>
   set (fold (\<lambda>r us. case row_user itu idc r of None \<Rightarrow> us | Some u \<Rightarrow> List.insert u us) rows us) =
     set us \<union> {u. \<exists>r \<in> set rows. row_user itu idc r = Some u}"
proof (induction rows arbitrary: us)
  case Nil
  then show ?case by simp
next
  case (Cons r rows)
  show ?case
  proof (cases "row_user itu idc r")
    case None
    with Cons show ?thesis by auto
  next
    case (Some u)
    from Cons.prems have "distinct (List.insert u us)" by simp
    from Cons.IH [OF this] Some show ?thesis by auto
  qed
qed

lemma length_users_resolved:
  "length (fold (\<lambda>r us. case row_user itu idc r of None \<Rightarrow> us | Some u \<Rightarrow> List.insert u us) rows []) =
   length (users_resolved itu idc rows)"
proof -
  let ?us = "fold (\<lambda>r us. case row_user itu idc r of None \<Rightarrow> us | Some u \<Rightarrow> List.insert u us) rows []"
  have d: "distinct ?us" and s: "set ?us = {u. \<exists>r \<in> set rows. row_user itu idc r = Some u}"
    using fold_insert_users [of "[]" itu idc rows] by simp_all
  have "set (users_resolved itu idc rows) = {u. \<exists>r \<in> set rows. row_user itu idc r = Some u}"
    by (force simp: users_resolved_def List.map_filter_def)
  with s have "set ?us = set (users_resolved itu idc rows)" by simp
  moreover have "distinct (users_resolved itu idc rows)" by (simp add: users_resolved_def)
  ultimately show ?thesis using d by (metis distinct_card)
qed

lemma fold_store_row_counts:
  "snd (fold (store_row e sid itu idc cols) rows (c, n, us)) =
   snd (fold (store_row e sid itu idc cols) rows (c', n, us))"
proof (induction rows rule: rev_induct)
  case Nil
  show ?case by simp
next
  case (snoc r rows)
  obtain c1 n1 us1 where st1: "fold (store_row e sid itu idc cols) rows (c, n, us) = (c1, n1, us1)"
    by (cases "fold (store_row e sid itu idc cols) rows (c, n, us)")
  obtain c2 n2 us2 where st2: "fold (store_row e sid itu idc cols) rows (c', n, us) = (c2, n2, us2)"
    by (cases "fold (store_row e sid itu idc cols) rows (c', n, us)")
  from snoc st1 st2 have "n1 = n2" "us1 = us2" by simp_all
  then show ?case
    by (simp add: st1 st2 store_row_eq split: option.splits)
qed


lemma sync_cases [consumes 1, case_names not_found skip fetch_failed store_raised stored]:
  assumes run: "sync_schedule_data e sid ty tb force w = (r, tr, w')"
  obtains
    "schedule_defs w sid = None"
      "r = failure_result (PStr (ascii ''Schedule definition not found: '' @ sid))" "tr = []" "w' = w"
  | tenant where "schedule_defs w sid = Some tenant" "\<not> force" "\<not> should_sync sid 10 w"
      "r = skipped_result (case get_last_sync sid w of None \<Rightarrow> None | Some l \<Rightarrow> sl_completed_at l)"
      "tr = []" "w' = w"
  | tenant sheets msg where "schedule_defs w sid = Some tenant" "force \<or> should_sync sid 10 w"
      "fetch_with_retry e 3 2 = (sheets, tr)" "\<not> sd_success sheets"
      "msg = reported_error sheets"
      "r = failure_result msg"
      "w' = mark_completed (length (ledger w)) 0 0 (message_of msg) (opened sid tenant ty tb tr w)"
  | tenant sheets msg where "schedule_defs w sid = Some tenant" "force \<or> should_sync sid 10 w"
      "fetch_with_retry e 3 2 = (sheets, tr)" "sd_success sheets"
      "store_schedule_data e sid sheets (opened sid tenant ty tb tr w) = Inl msg"
      "r = failure_result (PStr msg)"
      "w' = mark_completed (length (ledger w)) 0 0 (Some msg) (opened sid tenant ty tb tr w)"
  | tenant sheets rows users w3 where "schedule_defs w sid = Some tenant" "force \<or> should_sync sid 10 w"
      "fetch_with_retry e 3 2 = (sheets, tr)" "sd_success sheets"
      "store_schedule_data e sid sheets (opened sid tenant ty tb tr w) = Inr ((rows, users), w3)"
      "w' = mark_completed (length (ledger w)) rows users None w3"
      "r = success_result rows users (completed_at_of (length (ledger w)) w') (length (ledger w))"
proof (cases "schedule_defs w sid")
  case None
  from run have "(failure_result (PStr (ascii ''Schedule definition not found: '' @ sid)), [], w) = (r, tr, w')"
    unfolding sync_schedule_data_def None by auto
  then have "r = failure_result (PStr (ascii ''Schedule definition not found: '' @ sid))" "tr = []" "w' = w"
    by auto
  with None show ?thesis by (rule that(1))
next
  case (Some tenant)
  show ?thesis
  proof (cases "\<not> force \<and> \<not> should_sync sid 10 w")
    case True
    from run have "(skipped_result (case get_last_sync sid w of None \<Rightarrow> None | Some l \<Rightarrow> sl_completed_at l), [], w) = (r, tr, w')"
      unfolding sync_schedule_data_def Some using True by auto
    then have "r = skipped_result (case get_last_sync sid w of None \<Rightarrow> None | Some l \<Rightarrow> sl_completed_at l)"
      "tr = []" "w' = w"
      by auto
    with Some True show ?thesis by (intro that(2)) auto
  next
    case False
    then have go: "force \<or> should_sync sid 10 w" by blast
    obtain sheets tr0 where f: "fetch_with_retry e 3 2 = (sheets, tr0)"
      by (cases "fetch_with_retry e 3 2")
    have cond: "\<not> (\<not> force \<and> \<not> should_sync sid 10 w)" using go by blast
    define w2 where "w2 = opened sid tenant ty tb tr0 w"
    define i where "i = length (ledger w)"
    have unfolded: "sync_schedule_data e sid ty tb force w =
        (if \<not> sd_success sheets then
           (failure_result (reported_error sheets), tr0,
            mark_completed i 0 0 (message_of (reported_error sheets)) w2)
         else
           (case store_schedule_data e sid sheets w2 of
              Inr ((rows, users), w3) \<Rightarrow>
                (success_result rows users (completed_at_of i (mark_completed i rows users None w3)) i, tr0,
                 mark_completed i rows users None w3)
            | Inl error_msg \<Rightarrow> (failure_result (PStr error_msg), tr0, mark_completed i 0 0 (Some error_msg) w2)))"
      unfolding w2_def i_def
      by (simp add: sync_schedule_data_def Some f cond opened_def create_sync_log_def reported_error_def Let_def
            split: sum.split prod.split)
    show ?thesis
    proof (cases "sd_success sheets")
      case nsucc: False
      from run have "r = failure_result (reported_error sheets)"
        "tr0 = tr"
        "w' = mark_completed i 0 0 (message_of (reported_error sheets)) w2"
        unfolding unfolded using nsucc by auto
      with Some go f nsucc show ?thesis
        unfolding w2_def i_def by (intro that(3)[of tenant sheets]) simp_all
    next
      case succ: True
      show ?thesis
      proof (cases "store_schedule_data e sid sheets w2")
        case (Inl msg)
        from run have "r = failure_result (PStr msg)" "tr0 = tr" "w' = mark_completed i 0 0 (Some msg) w2"
          unfolding unfolded using succ Inl by auto
        with Some go f succ Inl show ?thesis
          unfolding w2_def i_def by (intro that(4)[of tenant sheets msg]) simp_all
      next
        case (Inr x)
        obtain rows users w3 where x: "x = ((rows, users), w3)" by (cases x) auto
        from run have "r = success_result rows users (completed_at_of i (mark_completed i rows users None w3)) i"
          "tr0 = tr" "w' = mark_completed i rows users None w3"
          unfolding unfolded using succ Inr x by auto
        with Some go f succ Inr x show ?thesis
          unfolding w2_def i_def by (intro that(5)[of tenant sheets rows users w3]) simp_all
      qed
    qed
  qed
qed


lemma mark_completed_frame [simp]:
  "cache (mark_completed i rows users err w) = cache w"
  "schedule_defs (mark_completed i rows users err w) = schedule_defs w"
  "employee_mappings (mark_completed i rows users err w) = employee_mappings w"
  "clock (mark_completed i rows users err w) = clock w"
  by (simp_all add: mark_completed_def)

lemma opened_frame [simp]:
  "cache (opened sid tenant ty tb tr w) = cache w"
  "schedule_defs (opened sid tenant ty tb tr w) = schedule_defs w"
  "employee_mappings (opened sid tenant ty tb tr w) = employee_mappings w"
  "clock (opened sid tenant ty tb tr w) = clock w + elapse tr"
  by (simp_all add: opened_def create_sync_log_def Let_def)

lemma active_mappings_frame:
  "employee_mappings w' = employee_mappings w \<Longrightarrow> active_mappings sid w' = active_mappings sid w"
  by (simp add: active_mappings_def)

lemma ledger_opened:
  "ledger (opened sid tenant ty tb tr w) =
     ledger w @ [\<lparr>sl_id = length (ledger w), sl_schedule_def_id = sid, sl_tenant_id = tenant,
                  sl_sync_type = ty, sl_triggered_by = tb, sl_started_at = clock w,
                  sl_completed_at = None, sl_status = Pending, sl_rows_synced = 0,
                  sl_users_synced = 0, sl_error_message = None\<rparr>]"
  by (simp add: opened_def create_sync_log_def Let_def)

lemma ledger_mark_completed:
  "ledger w = ls @ [l] \<Longrightarrow>
   ledger (mark_completed (length ls) rows users err w) = ls @ [finalize (clock w) rows users err l]"
  by (simp add: mark_completed_def)

lemma store_Inl:
  "store_schedule_data e sid sheets w = Inl msg \<Longrightarrow> sd_final_output sheets = Malformed msg"
  by (auto simp: store_schedule_data_def Let_def split: pyfield.splits if_splits option.splits prod.splits)

lemma store_Inr_frame:
  assumes "store_schedule_data e sid sheets w = Inr (cnt, w3)"
  shows "schedule_defs w3 = schedule_defs w \<and> employee_mappings w3 = employee_mappings w \<and>
         ledger w3 = ledger w \<and> clock w3 = clock w"
  using assms
  by (auto simp: store_schedule_data_def Let_def split: pyfield.splits if_splits option.splits prod.splits)

lemma store_no_rows:
  assumes "snapshot_rows sheets = None" "store_schedule_data e sid sheets w = Inr (cnt, w3)"
  shows "cnt = (0, 0) \<and> w3 = w"
  using assms
  by (auto simp: store_schedule_data_def snapshot_rows_def Let_def
      split: pyfield.splits if_splits option.splits prod.splits)

lemma store_rows:
  assumes "snapshot_rows sheets = Some (idc, cols, rows)"
  shows "store_schedule_data e sid sheets w =
     (let st = fold (store_row e sid (build_identifier_to_user (active_mappings sid w)) idc cols) rows
                 (cache w, 0, [])
      in Inr ((fst (snd st), length (snd (snd st))), w\<lparr>cache := fst st\<rparr>))"
  using assms
  by (auto simp: store_schedule_data_def snapshot_rows_def Let_def
      split: pyfield.splits if_splits option.splits prod.splits)


lemma store_result:
  "store_schedule_data e sid sheets w =
     (case sd_final_output sheets of
        Malformed msg \<Rightarrow> Inl msg
      | _ \<Rightarrow>
        (case snapshot_rows sheets of
           None \<Rightarrow> Inr ((0, 0), w)
         | Some (idc, cols, rows) \<Rightarrow>
             Inr ((entries_written (python e) (build_identifier_to_user (active_mappings sid w)) idc cols rows,
                   length (users_resolved (build_identifier_to_user (active_mappings sid w)) idc rows)),
                  w\<lparr>cache := replaced (python e) sid (build_identifier_to_user (active_mappings sid w))
                                idc cols rows (cache w)\<rparr>)))"
proof (cases "snapshot_rows sheets")
  case None
  then show ?thesis
    by (auto simp: store_schedule_data_def snapshot_rows_def Let_def
        split: pyfield.splits if_splits option.splits prod.splits)
next
  case (Some x)
  obtain idc cols rows where x: "x = (idc, cols, rows)" by (cases x)
  let ?itu = "build_identifier_to_user (active_mappings sid w)"
  let ?st = "fold (store_row e sid ?itu idc cols) rows (cache w, 0, [])"
  have present: "\<exists>final. sd_final_output sheets = Present final"
    using Some by (auto simp: snapshot_rows_def split: pyfield.splits)
  have "fst ?st = replaced (python e) sid ?itu idc cols rows (cache w)"
    by (rule fold_store_row_cache)
  moreover have "snd ?st = (entries_written (python e) ?itu idc cols rows,
      fold (\<lambda>r us. case row_user ?itu idc r of None \<Rightarrow> us | Some u \<Rightarrow> List.insert u us) rows [])"
    using fold_store_row_counts_eq [of e sid ?itu idc cols rows "cache w" 0 "[]"] by simp
  ultimately show ?thesis
    using present Some x store_rows [of sheets idc cols rows e sid w]
    by (auto simp: Let_def length_users_resolved)
qed

lemma sync_frame:
  assumes "sync_schedule_data e sid ty tb force w = (r, tr, w')"
  shows "schedule_defs w' = schedule_defs w \<and> employee_mappings w' = employee_mappings w"
  using assms
proof (cases rule: sync_cases)
  case (stored tenant sheets rows users w3)
  with store_Inr_frame [OF stored(5)] show ?thesis by simp
qed simp_all

text \<open>What a sync that is not skipped returns and leaves in the cache, as a function of the
  fetched snapshot.\<close>

lemma sync_outcome:
  assumes run: "sync_schedule_data e sid ty tb force w = (r, tr, w')"
    and target: "schedule_defs w sid \<noteq> None" and due: "force \<or> should_sync sid 10 w"
  shows "\<not> skipped r \<and>
         (success r \<longleftrightarrow> sd_success (fst (fetch_with_retry e 3 2)) \<and>
                        (\<forall>msg. sd_final_output (fst (fetch_with_retry e 3 2)) \<noteq> Malformed msg)) \<and>
         (if success r
          then (case snapshot_rows (fst (fetch_with_retry e 3 2)) of
                  None \<Rightarrow> rows_synced r = Some 0 \<and> users_synced r = Some 0 \<and> cache w' = cache w
                | Some (idc, cols, rows) \<Rightarrow>
                    rows_synced r =
                      Some (entries_written (python e) (build_identifier_to_user (active_mappings sid w)) idc cols rows) \<and>
                    users_synced r =
                      Some (length (users_resolved (build_identifier_to_user (active_mappings sid w)) idc rows)) \<and>
                    cache w' =
                      replaced (python e) sid (build_identifier_to_user (active_mappings sid w)) idc cols rows (cache w))
          else rows_synced r = None \<and> users_synced r = None \<and> cache w' = cache w)"
  using run
proof (cases rule: sync_cases)
  case not_found
  with target show ?thesis by simp
next
  case (skip tenant)
  with due show ?thesis by simp
next
  case (fetch_failed tenant sheets msg)
  then show ?thesis by (simp add: failure_result_def)
next
  case (store_raised tenant sheets msg)
  with store_Inl [OF store_raised(5)] show ?thesis by (simp add: failure_result_def)
next
  case (stored tenant sheets n_rows n_users w3)
  let ?w2 = "opened sid tenant ty tb tr w"
  let ?itu = "build_identifier_to_user (active_mappings sid w)"
  have am: "active_mappings sid ?w2 = active_mappings sid w"
    by (rule active_mappings_frame) simp
  from stored(5) have res: "store_schedule_data e sid sheets ?w2 = Inr ((n_rows, n_users), w3)" .
  have nm: "\<forall>msg. sd_final_output sheets \<noteq> Malformed msg"
    using res by (auto simp: store_result)
  have r: "success r" "\<not> skipped r" "rows_synced r = Some n_rows" "users_synced r = Some n_users"
    using stored(7) by (simp_all add: success_result_def)
  have c: "cache w' = cache w3" using stored(6) by simp
  have "case snapshot_rows sheets of
          None \<Rightarrow> n_rows = 0 \<and> n_users = 0 \<and> cache w3 = cache w
        | Some (idc, cols, rows) \<Rightarrow>
            n_rows = entries_written (python e) ?itu idc cols rows \<and>
            n_users = length (users_resolved ?itu idc rows) \<and>
            cache w3 = replaced (python e) sid ?itu idc cols rows (cache w)"
    using res nm by (auto simp: store_result am split: pyfield.splits option.splits)
  with r c nm stored(3,4) show ?thesis by (auto split: option.splits)
qed

lemma sync_ran:
  assumes "sync_schedule_data e sid ty tb force w = (r, tr, w')" and "success r" and "\<not> skipped r"
  shows "schedule_defs w sid \<noteq> None \<and> (force \<or> should_sync sid 10 w)"
  using assms
  by (cases rule: sync_cases) (simp_all add: failure_result_def skipped_result_def)

lemma replaced_idem:
  "replaced py sid itu idc cols rows (replaced py sid itu idc cols rows c) =
   replaced py sid itu idc cols rows c"
  by (auto simp: replaced_def fun_eq_iff split: option.splits)

lemma replaced_at_user:
  "last_row_of itu idc rows u = Some r0 \<Longrightarrow>
   replaced py sid itu idc cols rows c (u, sid, d) = row_schedule py idc cols (row_dict r0) d"
  by (simp add: replaced_def)

lemma row_schedule_None:
  "d \<notin> fst ` set (row_entries py idc cols row) \<Longrightarrow> row_schedule py idc cols row d = None"
  by (simp add: row_schedule_def map_of_eq_None_iff)

lemma mark_completed_opened:
  "mark_completed (length (ledger w)) rows users err ((opened sid tenant ty tb tr w)\<lparr>cache := c\<rparr>) =
   (finished sid tenant ty tb tr rows users err w)\<lparr>cache := c\<rparr>"
  by (simp add: mark_completed_def opened_def create_sync_log_def finished_def ticket_def Let_def)

lemma mark_completed_opened':
  "mark_completed (length (ledger w)) rows users err (opened sid tenant ty tb tr w) =
   finished sid tenant ty tb tr rows users err w"
  by (simp add: mark_completed_def opened_def create_sync_log_def finished_def ticket_def Let_def)

lemma sync_eval:
  assumes target: "schedule_defs w sid = Some tenant"
    and due: "force \<or> should_sync sid 10 w"
    and fetched: "fetch_with_retry e 3 2 = (sheets, tr)"
  shows "sync_schedule_data e sid ty tb force w =
     (if \<not> sd_success sheets
      then (failure_result (reported_error sheets), tr,
            finished sid tenant ty tb tr 0 0
              (message_of (reported_error sheets)) w)
      else
        (case sd_final_output sheets of
           Malformed msg \<Rightarrow> (failure_result (PStr msg), tr, finished sid tenant ty tb tr 0 0 (Some msg) w)
         | _ \<Rightarrow>
           (case snapshot_rows sheets of
              None \<Rightarrow> (success_result 0 0 (Some (clock w + elapse tr)) (length (ledger w)), tr,
                        finished sid tenant ty tb tr 0 0 None w)
            | Some (idc, cols, rows) \<Rightarrow>
                (success_result
                   (entries_written (python e) (build_identifier_to_user (active_mappings sid w)) idc cols rows)
                   (length (users_resolved (build_identifier_to_user (active_mappings sid w)) idc rows))
                   (Some (clock w + elapse tr)) (length (ledger w)), tr,
                 (finished sid tenant ty tb tr
                    (entries_written (python e) (build_identifier_to_user (active_mappings sid w)) idc cols rows)
                    (length (users_resolved (build_identifier_to_user (active_mappings sid w)) idc rows))
                    None w)
                 \<lparr>cache := replaced (python e) sid (build_identifier_to_user (active_mappings sid w)) idc cols rows
                             (cache w)\<rparr>))))"
proof -
  have cond: "\<not> (\<not> force \<and> \<not> should_sync sid 10 w)" using due by blast
  let ?w2 = "opened sid tenant ty tb tr w"
  have am: "active_mappings sid ?w2 = active_mappings sid w"
    by (rule active_mappings_frame) simp
  have unfolded: "sync_schedule_data e sid ty tb force w =
        (if \<not> sd_success sheets then
           (failure_result (reported_error sheets), tr,
            mark_completed (length (ledger w)) 0 0 (message_of (reported_error sheets)) ?w2)
         else
           (case store_schedule_data e sid sheets ?w2 of
              Inr ((rows, users), w3) \<Rightarrow>
                (success_result rows users (completed_at_of (length (ledger w)) (mark_completed (length (ledger w)) rows users None w3)) (length (ledger w)), tr,
                 mark_completed (length (ledger w)) rows users None w3)
            | Inl error_msg \<Rightarrow> (failure_result (PStr error_msg), tr, mark_completed (length (ledger w)) 0 0 (Some error_msg) ?w2)))"
    by (simp add: sync_schedule_data_def target fetched cond opened_def create_sync_log_def reported_error_def Let_def
          split: sum.split prod.split)
  have fin: "completed_at_of (length (ledger w)) ((finished sid tenant ty tb tr rows users err w)\<lparr>cache := c\<rparr>)
              = Some (clock w + elapse tr)" for rows users err c
    by (simp add: completed_at_of_def finished_def finalize_def)
  have fin': "completed_at_of (length (ledger w)) (finished sid tenant ty tb tr rows users err w)
              = Some (clock w + elapse tr)" for rows users err
    by (simp add: completed_at_of_def finished_def finalize_def)
  show ?thesis
    unfolding unfolded
    by (auto simp: store_result am mark_completed_opened mark_completed_opened' fin fin'
        split: pyfield.splits option.splits)
qed



subsection \<open>The fetch loop, step by step\<close>

lemma fetch_loop_success:
  "attempt < n \<Longrightarrow> fetch_schedule_data e attempt = Returned sd \<Longrightarrow> sd_success sd \<Longrightarrow>
   fetch_loop e n d attempt tr = (sd, tr @ [FetchCall attempt])"
  by (subst fetch_loop.simps) simp

lemma fetch_loop_other_error:
  "attempt < n \<Longrightarrow> fetch_schedule_data e attempt = Returned sd \<Longrightarrow> \<not> sd_success sd \<Longrightarrow>
   \<not> rate_limited (python e) (error_text sd) \<Longrightarrow>
   fetch_loop e n d attempt tr = (sd, tr @ [FetchCall attempt])"
  by (subst fetch_loop.simps) (simp add: rate_limited_def error_text_def Let_def)

lemma fetch_loop_rate_limited:
  "attempt < n \<Longrightarrow> fetch_schedule_data e attempt = Returned sd \<Longrightarrow> \<not> sd_success sd \<Longrightarrow>
   rate_limited (python e) (error_text sd) \<Longrightarrow>
   fetch_loop e n d attempt tr =
     (if attempt < n - 1
      then fetch_loop e n d (Suc attempt) (tr @ [FetchCall attempt, Sleep (d * 2 ^ attempt)])
      else (sd, tr @ [FetchCall attempt]))"
  by (subst fetch_loop.simps) (simp add: rate_limited_def error_text_def Let_def)

lemma fetch_loop_raised:
  "attempt < n \<Longrightarrow> fetch_schedule_data e attempt = Raised msg \<Longrightarrow>
   fetch_loop e n d attempt tr =
     (if attempt < n - 1 \<and> (py_in (ascii ''429'') msg \<or> py_in (ascii ''quota'') (lower (python e) msg))
      then fetch_loop e n d (Suc attempt) (tr @ [FetchCall attempt, Sleep (d * 2 ^ attempt)])
      else (failure_data msg, tr @ [FetchCall attempt]))"
  by (subst fetch_loop.simps) simp

text \<open>
  With three attempts, returned errors that are all rate-limited give two sleeps of
  \<open>d * 2 ^ 0\<close> and \<open>d * 2 ^ 1\<close> and then the last error.
\<close>

lemma returned_rate_limit_exhausts_retries:
  assumes "\<And>k. k < 3 \<Longrightarrow> fetch_schedule_data e k = Returned (sd k)"
    and "\<And>k. k < 3 \<Longrightarrow> \<not> sd_success (sd k)"
    and "\<And>k. k < 3 \<Longrightarrow> rate_limited (python e) (error_text (sd k))"
  shows "fetch_with_retry e 3 d =
           (sd 2, [FetchCall 0, Sleep (d * 2 ^ 0), FetchCall 1, Sleep (d * 2 ^ 1), FetchCall 2])"
proof -
  have "fetch_loop e 3 d 0 [] = fetch_loop e 3 d (Suc 0) [FetchCall 0, Sleep (d * 2 ^ 0)]"
    using assms [of 0] by (simp add: fetch_loop_rate_limited)
  also have "\<dots> = fetch_loop e 3 d 2 [FetchCall 0, Sleep (d * 2 ^ 0), FetchCall 1, Sleep (d * 2 ^ 1)]"
    using assms [of 1] by (simp add: fetch_loop_rate_limited numeral_2_eq_2)
  also have "\<dots> = (sd 2, [FetchCall 0, Sleep (d * 2 ^ 0), FetchCall 1, Sleep (d * 2 ^ 1), FetchCall 2])"
    using assms [of 2] by (simp add: fetch_loop_rate_limited)
  finally show ?thesis by (simp add: fetch_with_retry_def)
qed

subsection \<open>The fetch loop on simple remotes\<close>

lemma remote_python [simp]: "python (remote sheets) = plain" "python (raising msg) = plain"
  by (simp_all add: remote_def raising_def)

lemma fetch_remote_ok:
  "sd_success sheets \<Longrightarrow> fetch_with_retry (remote sheets) 3 d = (sheets, [FetchCall 0])"
  by (simp add: fetch_with_retry_def fetch_loop_success remote_def)

lemma fetch_remote_rate_limited:
  assumes "\<not> sd_success sheets"
    and "rate_limited plain (error_text sheets)"
  shows "fetch_with_retry (remote sheets) 3 d =
           (sheets, [FetchCall 0, Sleep (d * 2 ^ 0), FetchCall 1, Sleep (d * 2 ^ 1), FetchCall 2])"
  using returned_rate_limit_exhausts_retries [of "remote sheets" "\<lambda>k. sheets" d] assms
  by (simp add: remote_def)

lemma fetch_remote_other_error:
  assumes "\<not> sd_success sheets"
    and "\<not> rate_limited plain (error_text sheets)"
  shows "fetch_with_retry (remote sheets) 3 d = (sheets, [FetchCall 0])"
  using assms by (simp add: fetch_with_retry_def fetch_loop_other_error remote_def)

lemma fetch_raising_other:
  assumes "\<not> py_in (ascii ''429'') msg" and "\<not> py_in (ascii ''quota'') (lower plain msg)"
  shows "fetch_with_retry (raising msg) 3 d = (failure_data msg, [FetchCall 0])"
  using assms by (simp add: fetch_with_retry_def fetch_loop_raised raising_def)

subsection \<open>The example data, evaluated\<close>

lemmas string_defs = ascii_def strip_def is_space_def upper_def upper_char_def lower_def

lemmas parse_defs = ascii_def parse_date_def strip_def is_space_def formats_def strptime_def two_chars_def
  one_char_def nonzero_digit_def ascii_val_def re_m_def re_d_def re_lit_def is_digit_def digit_val_def
  decimal_def mk_date_def days_in_month_def is_leap_def Let_def

lemma parse_nov1: "parse_date py (ascii ''2025-11-01'') = Some (Date 2025 11 1)"
  by (simp add: parse_defs)

lemma parse_nov5: "parse_date py (ascii ''2025-11-05'') = Some (Date 2025 11 5)"
  by (simp add: parse_defs)

lemma rate_limited_examples:
  "rate_limited py (ascii ''Quota exceeded'')"
  "rate_limited py (ascii ''Rate limit exceeded'')"
  "\<not> py_in (ascii ''429'') (ascii ''Rate limit exceeded'')"
  "\<not> py_in (ascii ''quota'') (lower py (ascii ''Rate limit exceeded''))"
  "\<not> py_in (ascii ''429'') (ascii ''connection reset'')"
  "\<not> py_in (ascii ''quota'') (lower py (ascii ''connection reset''))"
  "\<not> rate_limited py (ascii ''None'')"
  by (simp_all add: rate_limited_def string_defs)


lemma normalize_examples:
  "normalize_shift_type plain (PStr (ascii ''D'')) = ascii ''D''"
  "normalize_shift_type plain (PStr (ascii ''E'')) = ascii ''E''"
  "normalize_shift_type plain (PStr (ascii ''N'')) = ascii ''N''"
  "normalize_shift_type plain (PStr (ascii ''OFF'')) = ascii ''OFF''"
  "normalize_shift_type plain (PStr (ascii ''DAY'')) = ascii ''D''"
  "normalize_shift_type plain (PStr (ascii ''morning shift'')) = ascii ''D''"
  by (simp_all add: normalize_shift_type_def string_defs kw_xiu_def kw_xiujia_def kw_guitai_def
        kw_erxian_def kw_yaoju_def kw_renli_def kw_xiaoye_def kw_daye_def kw_baiban_def Let_def)

lemma time_range_examples:
  "get_time_range (ascii ''D'') = ascii ''08:00 - 16:00''"
  "get_time_range (ascii ''E'') = ascii ''16:00 - 00:00''"
  "get_time_range (ascii ''N'') = ascii ''00:00 - 08:00''"
  "get_time_range (ascii ''OFF'') = ascii ''--''"
  by (simp_all add: get_time_range_def)

lemma ex_links_eq:
  "ex_links = [(ascii ''E04'', ascii ''user-004''), (ascii ''E0'', ascii ''user-099'')]"
  by (simp add: ex_links_def build_identifier_to_user_def active_mappings_def ex_world_def
        link_E04_def link_E0_def add_mapping_def)

lemma ex_header_column: "find_identifier_column ex_header = Some (ascii ''name'')"
  by (simp add: find_identifier_column_def identifier_candidates_def ex_header_def
        ident_col1_def ident_col2_def ident_col3_def ascii_def)

lemma snapshot_rows_ex:
  "rows \<noteq> [] \<Longrightarrow> snapshot_rows (snapshot_of ex_header rows) = Some (ascii ''name'', ex_header, rows)"
  by (simp add: snapshot_rows_def snapshot_of_def ex_header_column) (simp add: ex_header_def)

lemma label_examples:
  "strip (ascii ''D'') = ascii ''D''" "upper plain (ascii ''D'') \<noteq> ascii ''NULL''"
  "strip (ascii ''E'') = ascii ''E''" "upper plain (ascii ''E'') \<noteq> ascii ''NULL''"
  "strip (ascii ''N'') = ascii ''N''" "upper plain (ascii ''N'') \<noteq> ascii ''NULL''"
  "strip (ascii ''OFF'') = ascii ''OFF''" "upper plain (ascii ''OFF'') \<noteq> ascii ''NULL''"
  "strip (ascii ''DAY'') = ascii ''DAY''" "upper plain (ascii ''DAY'') \<noteq> ascii ''NULL''"
  "strip (ascii ''morning shift'') = ascii ''morning shift''"
  "upper plain (ascii ''morning shift'') \<noteq> ascii ''NULL''"
  "strip null_label = ascii ''null''" "upper plain (ascii ''null'') = ascii ''NULL''"
  "strip [] = []"
  by (simp_all add: string_defs null_label_def)

lemma label_code_examples:
  "label_code plain (PStr (ascii ''D'')) = Some (ascii ''D'')"
  "label_code plain (PStr (ascii ''E'')) = Some (ascii ''E'')"
  "label_code plain (PStr (ascii ''N'')) = Some (ascii ''N'')"
  "label_code plain (PStr (ascii ''OFF'')) = Some (ascii ''OFF'')"
  "label_code plain (PStr (ascii ''DAY'')) = Some (ascii ''D'')"
  "label_code plain (PStr (ascii ''morning shift'')) = Some (ascii ''D'')"
  "label_code plain (PStr null_label) = None"
  "label_code plain (PStr []) = None"
  by (simp_all add: label_code_def label_examples normalize_examples)

lemma row_user_examples:
  "row_user ex_links (ascii ''name'') (row_of (ascii ''E04'') a b) = Some (ascii ''user-004'')"
  "row_user ex_links (ascii ''name'') (row_of (ascii ''E0'') a b) = Some (ascii ''user-099'')"
  "row_user ex_links (ascii ''name'') (row_of (ascii ''E041'') a b) = Some (ascii ''user-004'')"
  "row_user ex_links (ascii ''name'') (row_of (ascii ''zzz'') a b) = None"
  "row_user ex_links (ascii ''name'') (row_of (ascii ''yyy'') a b) = None"
  by (simp_all add: ex_links_eq row_user_def row_of_def row_get_def resolve_user_def partial_match_def
        strip_def is_space_def ascii_def)

lemma row_entries_ex:
  "row_entries plain (ascii ''name'') ex_header (row_dict (row_of i a b)) =
     List.map_filter (\<lambda>(d, v). case label_code plain (PStr v) of
                                  None \<Rightarrow> None
                                | Some code \<Rightarrow> Some (d, code, get_time_range code))
       [(Date 2025 11 1, a), (Date 2025 11 5, b)]"
  by (simp add: row_entries_def ex_header_def row_dict_def row_of_def cell_entry_def row_get_def
        parse_nov1 parse_nov5 map_filter_simps split: option.splits)

lemma row_entries_examples:
  "row_entries plain (ascii ''name'') ex_header (row_dict (row_of i (ascii ''D'') (ascii ''OFF''))) =
     [(Date 2025 11 1, ascii ''D'', ascii ''08:00 - 16:00''), (Date 2025 11 5, ascii ''OFF'', ascii ''--'')]"
  "row_entries plain (ascii ''name'') ex_header (row_dict (row_of i (ascii ''N'') (ascii ''N''))) =
     [(Date 2025 11 1, ascii ''N'', ascii ''00:00 - 08:00''), (Date 2025 11 5, ascii ''N'', ascii ''00:00 - 08:00'')]"
  "row_entries plain (ascii ''name'') ex_header (row_dict (row_of i (ascii ''E'') (ascii ''E''))) =
     [(Date 2025 11 1, ascii ''E'', ascii ''16:00 - 00:00''), (Date 2025 11 5, ascii ''E'', ascii ''16:00 - 00:00'')]"
  "row_entries plain (ascii ''name'') ex_header (row_dict (row_of i (ascii ''D'') (ascii ''D''))) =
     [(Date 2025 11 1, ascii ''D'', ascii ''08:00 - 16:00''), (Date 2025 11 5, ascii ''D'', ascii ''08:00 - 16:00'')]"
  "row_entries plain (ascii ''name'') ex_header (row_dict (row_of i (ascii ''E'') [])) =
     [(Date 2025 11 1, ascii ''E'', ascii ''16:00 - 00:00'')]"
  "row_entries plain (ascii ''name'') ex_header (row_dict (row_of i (ascii ''D'') [])) =
     [(Date 2025 11 1, ascii ''D'', ascii ''08:00 - 16:00'')]"
  "row_entries plain (ascii ''name'') ex_header (row_dict (row_of i [] (ascii ''N''))) =
     [(Date 2025 11 5, ascii ''N'', ascii ''00:00 - 08:00'')]"
  "row_entries plain (ascii ''name'') ex_header (row_dict (row_of i (ascii ''D'') (ascii ''N''))) =
     [(Date 2025 11 1, ascii ''D'', ascii ''08:00 - 16:00''), (Date 2025 11 5, ascii ''N'', ascii ''00:00 - 08:00'')]"
  "row_entries plain (ascii ''name'') ex_header (row_dict (row_of i (ascii ''D'') (ascii ''DAY''))) =
     [(Date 2025 11 1, ascii ''D'', ascii ''08:00 - 16:00''), (Date 2025 11 5, ascii ''D'', ascii ''08:00 - 16:00'')]"
  "row_entries plain (ascii ''name'') ex_header (row_dict (row_of i (ascii ''D'') (ascii ''morning shift''))) =
     [(Date 2025 11 1, ascii ''D'', ascii ''08:00 - 16:00''), (Date 2025 11 5, ascii ''D'', ascii ''08:00 - 16:00'')]"
  "row_entries plain (ascii ''name'') ex_header (row_dict (row_of i (ascii ''D'') null_label)) =
     [(Date 2025 11 1, ascii ''D'', ascii ''08:00 - 16:00'')]"
  by (simp_all add: row_entries_ex label_code_examples time_range_examples map_filter_simps)

lemma ex_world_facts:
  "schedule_defs ex_world (ascii ''sched-1'') = Some (ascii ''tenant-1'')"
  "schedule_defs ex_world (ascii ''sched-404'') = None"
  "ledger ex_world = []" "clock ex_world = 0"
  "should_sync (ascii ''sched-1'') 10 ex_world"
  "build_identifier_to_user (active_mappings (ascii ''sched-1'') ex_world) = ex_links"
  by (simp_all add: ex_world_def should_sync_def ex_links_def)

text \<open>A forced or due sync of the example target against a remote that returns a good snapshot.\<close>

lemma sync_example:
  assumes "rows \<noteq> []"
  shows "sync_schedule_data (remote (snapshot_of ex_header rows)) (ascii ''sched-1'') ty tb force ex_world =
     (success_result (entries_written plain ex_links (ascii ''name'') ex_header rows)
        (length (users_resolved ex_links (ascii ''name'') rows)) (Some 0) 0,
      [FetchCall 0],
      (finished (ascii ''sched-1'') (ascii ''tenant-1'') ty tb [FetchCall 0]
         (entries_written plain ex_links (ascii ''name'') ex_header rows)
         (length (users_resolved ex_links (ascii ''name'') rows)) None ex_world)
      \<lparr>cache := replaced plain (ascii ''sched-1'') ex_links (ascii ''name'') ex_header rows
                  (cache ex_world)\<rparr>)"
proof -
  have ok: "sd_success (snapshot_of ex_header rows)" by (simp add: snapshot_of_def)
  have present: "sd_final_output (snapshot_of ex_header rows) =
                   Present \<lparr>fo_success = True, fo_data = rows, fo_columns = ex_header\<rparr>"
    by (simp add: snapshot_of_def)
  show ?thesis
    by (simp add: sync_eval [OF ex_world_facts(1) _ fetch_remote_ok [OF ok]] ex_world_facts ok present
          snapshot_rows_ex [OF assms])
qed

lemma finished_ledger:
  "ledger ((finished sid tenant ty tb tr rows users err w)\<lparr>cache := c\<rparr>) =
     ledger w @ [finalize (clock w + elapse tr) rows users err (ticket sid tenant ty tb w)]"
  "ledger (finished sid tenant ty tb tr rows users err w) =
     ledger w @ [finalize (clock w + elapse tr) rows users err (ticket sid tenant ty tb w)]"
  "cache (finished sid tenant ty tb tr rows users err w) = cache w"
  by (simp_all add: finished_def)

lemma sync_example_failed:
  assumes "fetch_with_retry e 3 2 = (sheets, tr)" and "\<not> sd_success sheets"
  shows "sync_schedule_data e (ascii ''sched-1'') ty tb force ex_world =
           (failure_result (reported_error sheets), tr,
            finished (ascii ''sched-1'') (ascii ''tenant-1'') ty tb tr 0 0
              (message_of (reported_error sheets)) ex_world)"
  using assms(2) by (simp add: sync_eval [OF ex_world_facts(1) _ assms(1)] ex_world_facts)

lemma reported_error_examples:
  "reported_error (failure_data msg) = PStr msg" "\<not> sd_success (failure_data msg)"
  "error_text (failure_data msg) = msg"
  "reported_error failure_none = PNone" "\<not> sd_success failure_none"
  "error_text failure_none = ascii ''None''"
  by (simp_all add: reported_error_def error_text_def failure_data_def failure_none_def)


lemma run_raised_eq:
  "run_raised = (failure_result (PStr (ascii ''connection reset'')), [FetchCall 0],
                 finished (ascii ''sched-1'') (ascii ''tenant-1'') (ascii ''auto'') None [FetchCall 0] 0 0
                   (Some (ascii ''connection reset'')) ex_world)"
proof -
  have "fetch_with_retry (raising (ascii ''connection reset'')) 3 2 =
          (failure_data (ascii ''connection reset''), [FetchCall 0])"
    by (rule fetch_raising_other) (simp_all add: rate_limited_examples)
  then show ?thesis
    by (simp add: run_raised_def sync_example_failed reported_error_examples)
qed

lemma run_error_none_eq:
  "run_error_none = (failure_result PNone, [FetchCall 0],
                     finished (ascii ''sched-1'') (ascii ''tenant-1'') (ascii ''auto'') None [FetchCall 0] 0 0
                       None ex_world)"
proof -
  have "fetch_with_retry (remote failure_none) 3 2 = (failure_none, [FetchCall 0])"
    by (rule fetch_remote_other_error) (simp_all add: reported_error_examples rate_limited_examples)
  then show ?thesis
    by (simp add: run_error_none_def sync_example_failed reported_error_examples)
qed

lemma run_missing_target_eq:
  "run_missing_target =
     (failure_result (PStr (ascii ''Schedule definition not found: sched-404'')), [], ex_world)"
  by (simp add: run_missing_target_def sync_schedule_data_def ex_world_facts)

lemma run_no_ident_eq:
  "run_no_ident = (success_result 0 0 (Some 0) 0, [FetchCall 0],
                   finished (ascii ''sched-1'') (ascii ''tenant-1'') (ascii ''manual'') None [FetchCall 0] 0 0
                     None ex_world)"
proof -
  have ok: "sd_success snapshot_no_ident" by (simp add: snapshot_no_ident_def snapshot_of_def)
  have none: "snapshot_rows snapshot_no_ident = None"
    by (simp add: snapshot_no_ident_def snapshot_of_def snapshot_rows_def find_identifier_column_def
          identifier_candidates_def ident_col1_def ident_col2_def ident_col3_def ascii_def)
  have present: "sd_final_output snapshot_no_ident =
      Present \<lparr>fo_success = True,
               fo_data = [Row [(ascii ''id'', PStr (ascii ''E04'')), (ascii ''2025-11-01'', PStr (ascii ''D''))]],
               fo_columns = [ascii ''id'', ascii ''2025-11-01'']\<rparr>"
    by (simp add: snapshot_no_ident_def snapshot_of_def)
  show ?thesis
    by (simp add: run_no_ident_def sync_eval [OF ex_world_facts(1) _ fetch_remote_ok [OF ok]]
          ex_world_facts ok none present)
qed

lemma counts_examples:
  "entries_written plain ex_links (ascii ''name'') ex_header [row_of (ascii ''E04'') (ascii ''D'') (ascii ''OFF'')] = 2"
  "users_resolved ex_links (ascii ''name'') [row_of (ascii ''E04'') (ascii ''D'') (ascii ''OFF'')] = [ascii ''user-004'']"
  "entries_written plain ex_links (ascii ''name'') ex_header three_rows = 3"
  "users_resolved ex_links (ascii ''name'') three_rows = [ascii ''user-004'', ascii ''user-099'']"
  "entries_written plain ex_links (ascii ''name'') ex_header
     (three_rows @ [row_of (ascii ''yyy'') (ascii ''D'') (ascii ''D'')]) = 3"
  "users_resolved ex_links (ascii ''name'') (three_rows @ [row_of (ascii ''yyy'') (ascii ''D'') (ascii ''D'')]) =
     [ascii ''user-004'', ascii ''user-099'']"
  "entries_written plain ex_links (ascii ''name'') ex_header same_user_rows = 4"
  "users_resolved ex_links (ascii ''name'') same_user_rows = [ascii ''user-004'']"
  "entries_written plain ex_links (ascii ''name'') ex_header split_rows = 2"
  "users_resolved ex_links (ascii ''name'') split_rows = [ascii ''user-004'']"
  "entries_written plain ex_links (ascii ''name'') ex_header covered_rows = 3"
  "users_resolved ex_links (ascii ''name'') covered_rows = [ascii ''user-004'']"
  by (simp_all add: entries_written_def users_resolved_def three_rows_def same_user_rows_def
        split_rows_def covered_rows_def row_user_examples row_entries_examples map_filter_simps)

lemma user_counts:
  "length (users_resolved ex_links (ascii ''name'') three_rows) = 2"
  "length (users_resolved ex_links (ascii ''name'') (three_rows @ [row_of (ascii ''yyy'') (ascii ''D'') (ascii ''D'')])) = 2"
  "length (users_resolved ex_links (ascii ''name'') same_user_rows) = 1"
  "length (users_resolved ex_links (ascii ''name'') [row_of (ascii ''E04'') (ascii ''D'') (ascii ''OFF'')]) = 1"
  "length (users_resolved ex_links (ascii ''name'') split_rows) = 1"
  "length (users_resolved ex_links (ascii ''name'') covered_rows) = 1"
  by (simp_all add: counts_examples)

lemma run_U_eq:
  "run_U = (success_result 2 1 (Some 0) 0, [FetchCall 0],
            (finished (ascii ''sched-1'') (ascii ''tenant-1'') (ascii ''manual'') None [FetchCall 0] 2 1 None
               ex_world)
            \<lparr>cache := replaced plain (ascii ''sched-1'') ex_links (ascii ''name'') ex_header
                        [row_of (ascii ''E04'') (ascii ''D'') (ascii ''OFF'')] (cache ex_world)\<rparr>)"
  by (simp add: run_U_def snapshot_U_def sync_example counts_examples numeral_2_eq_2)

lemma rows_nonempty:
  "three_rows \<noteq> []" "same_user_rows \<noteq> []" "three_rows @ [r] \<noteq> []" "split_rows \<noteq> []"
  "covered_rows \<noteq> []"
  by (simp_all add: three_rows_def same_user_rows_def split_rows_def covered_rows_def)

lemma run_three_eq:
  "fst run_three = success_result 3 2 (Some 0) 0"
  "ledger (snd (snd run_three)) =
     [finalize 0 3 2 None (ticket (ascii ''sched-1'') (ascii ''tenant-1'') (ascii ''manual'') None ex_world)]"
  by (simp_all add: run_three_def sync_example [OF rows_nonempty(1)] counts_examples numeral_2_eq_2
        finished_ledger ex_world_facts)

lemma run_four_eq:
  "fst run_four = success_result 3 2 (Some 0) 0"
  "ledger (snd (snd run_four)) =
     [finalize 0 3 2 None (ticket (ascii ''sched-1'') (ascii ''tenant-1'') (ascii ''manual'') None ex_world)]"
  by (simp_all add: run_four_def sync_example [OF rows_nonempty(3)] counts_examples numeral_2_eq_2
        finished_ledger ex_world_facts)

lemma run_same_user_eq:
  "fst run_same_user = success_result 4 1 (Some 0) 0"
  by (simp add: run_same_user_def sync_example [OF rows_nonempty(2)] counts_examples numeral_2_eq_2)

lemma last_row_examples:
  "last_row_of ex_links (ascii ''name'') split_rows u =
     (if u = ascii ''user-004'' then Some (row_of (ascii ''E041'') [] (ascii ''N'')) else None)"
  "last_row_of ex_links (ascii ''name'') covered_rows u =
     (if u = ascii ''user-004'' then Some (row_of (ascii ''E04'') (ascii ''D'') (ascii ''N'')) else None)"
  by (auto simp: last_row_of_def split_rows_def covered_rows_def row_user_examples)

lemma run_split_eq:
  "fst run_split = success_result 2 1 (Some 0) 0"
  "cache (snd (snd run_split)) =
     replaced plain (ascii ''sched-1'') ex_links (ascii ''name'') ex_header split_rows (cache ex_world)"
  by (simp_all add: run_split_def sync_example [OF rows_nonempty(4)] counts_examples numeral_2_eq_2)

lemma run_covered_eq:
  "fst run_covered = success_result 3 1 (Some 0) 0"
  "cache (snd (snd run_covered)) =
     replaced plain (ascii ''sched-1'') ex_links (ascii ''name'') ex_header covered_rows (cache ex_world)"
  by (simp_all add: run_covered_def sync_example [OF rows_nonempty(5)] counts_examples numeral_2_eq_2)


subsection \<open>Stored entries\<close>

lemma normalize_shift_type_range:
  "normalize_shift_type py v \<in> {ascii ''D'', ascii ''E'', ascii ''N'', ascii ''OFF''}"
  by (auto simp: normalize_shift_type_def Let_def)

lemma label_code_Some:
  "label_code py v = Some code \<longleftrightarrow>
     (\<exists>s. v = PStr s \<and> strip s \<noteq> [] \<and> upper py (strip s) \<noteq> ascii ''NULL'' \<and>
          code = normalize_shift_type py (PStr (strip s)))"
  by (auto simp: label_code_def split: pyval.splits)

lemma blank_cell_iff: "blank_cell py row col \<longleftrightarrow> label_code py (row_get row col) = None"
  by (simp add: blank_cell_def label_code_def split: pyval.splits)

lemma blank_cell_entry: "blank_cell py row col \<Longrightarrow> cell_entry py row col = None"
  by (simp add: blank_cell_iff cell_entry_def split: option.splits)

lemma cell_entry_Some:
  "cell_entry py row col = Some (d, code, trange) \<longleftrightarrow>
     parse_date py col = Some d \<and> label_code py (row_get row col) = Some code \<and>
     trange = get_time_range code"
  by (auto simp: cell_entry_def split: option.splits)

lemma row_entries_cell:
  "(d, v) \<in> set (row_entries py idc cols row) \<Longrightarrow>
   \<exists>col \<in> set cols. col \<noteq> idc \<and> cell_entry py row col = Some (d, v)"
  by (auto simp: row_entries_def List.map_filter_def)

text \<open>An entry of the schedule of a row comes from a cell of that row that is not blank.\<close>

lemma row_schedule_cell:
  assumes "row_schedule py idc cols row d = Some (code, trange)"
  shows "\<exists>col \<in> set cols. col \<noteq> idc \<and> parse_date py col = Some d \<and>
           label_code py (row_get row col) = Some code \<and> trange = get_time_range code"
proof -
  from assms have "(d, code, trange) \<in> set (row_entries py idc cols row)"
    by (auto simp: row_schedule_def dest: map_of_SomeD)
  then obtain col where "col \<in> set cols" "col \<noteq> idc" "cell_entry py row col = Some (d, code, trange)"
    using row_entries_cell by blast
  then show ?thesis by (auto simp: cell_entry_Some)
qed

lemma find_SomeD: "find P xs = Some x \<Longrightarrow> x \<in> set xs \<and> P x"
  by (induction xs) (auto split: if_splits)

lemma last_row_of_Some:
  "last_row_of itu idc rows u = Some r \<Longrightarrow> r \<in> set rows \<and> row_user itu idc r = Some u"
  unfolding last_row_of_def by (drule find_SomeD) simp

lemma last_row_of_None:
  "last_row_of itu idc rows u = None \<longleftrightarrow> (\<forall>r \<in> set rows. row_user itu idc r \<noteq> Some u)"
  by (auto simp: last_row_of_def find_None_iff)

text \<open>
  An entry that the replacement leaves for a user with a body row comes from a cell, not
  blank, of a row of that user.
\<close>

lemma replaced_entry_source:
  assumes "replaced py sid itu idc cols rows c (u, sid, d) = Some (code, trange)"
    and "r0 \<in> set rows" "row_user itu idc r0 = Some u"
  shows "\<exists>r1 \<in> set rows. \<exists>col \<in> set cols. col \<noteq> idc \<and> row_user itu idc r1 = Some u \<and>
           parse_date py col = Some d \<and> label_code py (row_get (row_dict r1) col) = Some code \<and>
           trange = get_time_range code"
proof -
  from assms(2,3) have "last_row_of itu idc rows u \<noteq> None"
    by (auto simp: last_row_of_None)
  then obtain r1 where r1: "last_row_of itu idc rows u = Some r1" by blast
  have "row_schedule py idc cols (row_dict r1) d = Some (code, trange)"
    using assms(1) replaced_at_user [OF r1, of py sid cols c d] by simp
  from row_schedule_cell [OF this] last_row_of_Some [OF r1] show ?thesis by blast
qed

lemma sync_cache:
  assumes "sync_schedule_data e sid ty tb force w = (r, tr, w')"
  shows "cache w' = cache w \<or>
         (\<exists>idc cols rows. snapshot_rows (fst (fetch_with_retry e 3 2)) = Some (idc, cols, rows) \<and>
            cache w' =
            replaced (python e) sid (build_identifier_to_user (active_mappings sid w)) idc cols rows (cache w))"
  using assms
proof (cases rule: sync_cases)
  case (stored tenant sheets n_rows n_users w3)
  have am: "active_mappings sid (opened sid tenant ty tb tr w) = active_mappings sid w"
    by (rule active_mappings_frame) simp
  show ?thesis
  proof (cases "snapshot_rows sheets")
    case None
    from store_no_rows [OF None stored(5)] stored(6) show ?thesis by simp
  next
    case (Some x)
    obtain idc cols rows where x: "x = (idc, cols, rows)" by (cases x)
    from stored(5) Some x
    have "cache w3 = replaced (python e) sid (build_identifier_to_user (active_mappings sid w)) idc cols rows (cache w)"
      by (auto simp: store_result am split: pyfield.splits)
    with stored(3,6) Some x show ?thesis by auto
  qed
qed simp_all

subsection \<open>Rows that hold the same codes\<close>

lemma map_filter_cong:
  "(\<And>x. x \<in> set xs \<Longrightarrow> f x = g x) \<Longrightarrow> List.map_filter f xs = List.map_filter g xs"
  by (induction xs) (auto simp: map_filter_simps split: option.splits)

lemma find_snoc:
  "find P (xs @ [x]) = (case find P xs of Some y \<Rightarrow> Some y | None \<Rightarrow> if P x then Some x else None)"
  by (induction xs) simp_all

lemma last_row_of_Cons:
  "last_row_of itu idc (r # rows) u =
     (case last_row_of itu idc rows u of
        Some x \<Rightarrow> Some x
      | None \<Rightarrow> if row_user itu idc r = Some u then Some r else None)"
  by (simp add: last_row_of_def find_snoc)

lemma same_codes_row_user:
  "same_codes py idc cols r r' \<Longrightarrow> row_user itu idc r = row_user itu idc r'"
  by (auto simp: same_codes_def row_user_def split: sheet_row.splits)

lemma same_codes_entries:
  assumes "same_codes py idc cols r r'"
  shows "row_entries py idc cols (row_dict r) = row_entries py idc cols (row_dict r')"
proof (cases r)
  case NotADict
  with assms show ?thesis by (cases r') (simp_all add: same_codes_def)
next
  case (Row row)
  with assms obtain row' where r': "r' = Row row'" by (cases r') (simp_all add: same_codes_def)
  have eq: "cell_entry py row col = cell_entry py row' col"
    if "col \<in> set (filter (\<lambda>col. col \<noteq> idc) cols)" for col
  proof -
    from assms Row r' that
    have "label_code py (row_get row col) = label_code py (row_get row' col)"
      by (auto simp: same_codes_def list_all_iff)
    then show ?thesis by (auto simp: cell_entry_def split: option.splits)
  qed
  have "List.map_filter (cell_entry py row) (filter (\<lambda>col. col \<noteq> idc) cols) =
        List.map_filter (cell_entry py row') (filter (\<lambda>col. col \<noteq> idc) cols)"
    by (rule map_filter_cong) (rule eq)
  then show ?thesis by (simp add: row_entries_def Row r' row_dict_def)
qed

lemma same_codes_last_row:
  assumes "list_all2 (same_codes py idc cols) rows rows'"
  shows "rel_option (same_codes py idc cols) (last_row_of itu idc rows u) (last_row_of itu idc rows' u)"
  using assms
proof (induction rule: list_all2_induct)
  case Nil
  show ?case by (simp add: last_row_of_def)
next
  case (Cons r rows r' rows')
  from same_codes_row_user [OF Cons(1)] have "row_user itu idc r = row_user itu idc r'" .
  with Cons show ?case
    by (auto simp: last_row_of_Cons split: option.splits)
qed

text \<open>Snapshots whose rows hold the same codes lead to the same cache and the same counts.\<close>

lemma same_codes_replaced:
  assumes "list_all2 (same_codes py idc cols) rows rows'"
  shows "replaced py sid itu idc cols rows c = replaced py sid itu idc cols rows' c"
proof -
  have "(case last_row_of itu idc rows u of
           Some r \<Rightarrow> row_schedule py idc cols (row_dict r) d
         | None \<Rightarrow> c (u, s, d)) =
        (case last_row_of itu idc rows' u of
           Some r \<Rightarrow> row_schedule py idc cols (row_dict r) d
         | None \<Rightarrow> c (u, s, d))" for u s d
    using same_codes_last_row [OF assms, of itu u]
    by (cases "last_row_of itu idc rows u"; cases "last_row_of itu idc rows' u")
       (auto simp: row_schedule_def same_codes_entries)
  then show ?thesis by (auto simp: replaced_def fun_eq_iff)
qed

lemma same_codes_counts:
  assumes "list_all2 (same_codes py idc cols) rows rows'"
  shows "entries_written py itu idc cols rows = entries_written py itu idc cols rows' \<and>
         users_resolved itu idc rows = users_resolved itu idc rows'"
proof -
  from assms
  have "entries_written py itu idc cols rows = entries_written py itu idc cols rows' \<and>
        List.map_filter (row_user itu idc) rows = List.map_filter (row_user itu idc) rows'"
  proof (induction rule: list_all2_induct)
    case Nil
    show ?case by simp
  next
    case (Cons r rows r' rows')
    from same_codes_row_user [OF Cons(1)] have "row_user itu idc r = row_user itu idc r'" .
    with Cons same_codes_entries [OF Cons(1)] show ?case
      by (auto simp: entries_written_def map_filter_simps split: option.splits)
  qed
  then show ?thesis by (simp add: users_resolved_def)
qed

subsection \<open>Blank cells\<close>

lemma strip_decomp:
  "\<exists>l r. s = l @ strip s @ r \<and> (\<forall>c \<in> set l. is_space c) \<and> (\<forall>c \<in> set r. is_space c)"
proof -
  let ?m = "dropWhile is_space s"
  have "s = takeWhile is_space s @ ?m" by simp
  moreover have "?m = strip s @ rev (takeWhile is_space (rev ?m))"
  proof -
    have "strip s @ rev (takeWhile is_space (rev ?m)) =
          rev (takeWhile is_space (rev ?m) @ dropWhile is_space (rev ?m))"
      by (simp only: strip_def rev_append)
    also have "\<dots> = rev (rev ?m)" by (simp only: takeWhile_dropWhile_id)
    also have "\<dots> = ?m" by (simp only: rev_rev_ident)
    finally show ?thesis by (rule sym)
  qed
  ultimately have "s = takeWhile is_space s @ strip s @ rev (takeWhile is_space (rev ?m))"
    by simp
  moreover have "\<forall>c \<in> set (takeWhile is_space s). is_space c" by (auto dest: set_takeWhileD)
  moreover have "\<forall>c \<in> set (rev (takeWhile is_space (rev ?m))). is_space c"
    by (auto dest: set_takeWhileD)
  ultimately show ?thesis by blast
qed

lemma strip_empty: "strip s = [] \<Longrightarrow> \<forall>c \<in> set s. is_space c"
  using strip_decomp [of s] by auto

lemma strip_core:
  assumes "\<forall>c \<in> set l. is_space c" "\<forall>c \<in> set r. is_space c"
    and "m \<noteq> []" "\<not> is_space (hd m)" "\<not> is_space (last m)"
  shows "strip (l @ m @ r) = m"
proof -
  from assms(3,4) have "dropWhile is_space (m @ r) = m @ r" by (cases m) simp_all
  with assms(1) have 1: "dropWhile is_space (l @ m @ r) = m @ r"
    by (simp add: dropWhile_append2)
  from assms(3,5) have "dropWhile is_space (rev m) = rev m"
    by (cases m rule: rev_cases) simp_all
  moreover have "dropWhile is_space (rev r @ rev m) = dropWhile is_space (rev m)"
    using assms(2) by (intro dropWhile_append2) simp
  ultimately have "dropWhile is_space (rev r @ rev m) = rev m" by (rule trans [rotated])
  then have "rev (dropWhile is_space (rev (m @ r))) = m" by (simp only: rev_append rev_rev_ident)
  then show ?thesis by (simp only: strip_def 1)
qed

lemma upper_char_space: "is_space c \<Longrightarrow> upper_char py c = [c]"
  by (auto simp: upper_char_def is_space_def)

lemma upper_spaces: "\<forall>c \<in> set s. is_space c \<Longrightarrow> upper py s = s"
  by (induction s) (simp_all add: upper_def upper_char_space)

lemma upper_append: "upper py (a @ b) = upper py a @ upper py b"
  by (simp add: upper_def)

lemma null_ends: "ascii ''NULL'' \<noteq> []" "\<not> is_space (hd (ascii ''NULL''))" "\<not> is_space (last (ascii ''NULL''))"
  by (simp_all add: ascii_def is_space_def)

text \<open>The classifier maps the text of a blank cell to OFF, stripped or not.\<close>

lemma normalize_off:
  assumes "v = [] \<or> strip (upper py v) = [] \<or> strip (upper py v) = ascii ''NULL''"
  shows "normalize_shift_type py (PStr v) = ascii ''OFF''"
proof (cases "v = []")
  case True
  then show ?thesis by (simp add: normalize_shift_type_def)
next
  case False
  with assms
  have "strip (upper py v) \<in> set [ascii ''OFF'', kw_xiu, kw_xiujia, ascii ''NULL'', []] \<or>
        strip (upper py v) = []"
    by auto
  then show ?thesis
    unfolding normalize_shift_type_def Let_def truthy.simps py_str.simps
    using False by (simp only: if_True if_False not_not)
qed

lemma normalize_blank:
  assumes "strip v = [] \<or> upper py (strip v) = ascii ''NULL''"
  shows "normalize_shift_type py (PStr v) = ascii ''OFF'' \<and>
         normalize_shift_type py (PStr (strip v)) = ascii ''OFF''"
proof -
  obtain l r where d: "v = l @ strip v @ r" "\<forall>c \<in> set l. is_space c" "\<forall>c \<in> set r. is_space c"
    using strip_decomp [of v] by blast
  from assms show ?thesis
  proof
    assume e: "strip v = []"
    then have "upper py v = v" by (intro upper_spaces strip_empty)
    with e have "strip (upper py v) = []" by simp
    then have "normalize_shift_type py (PStr v) = ascii ''OFF''" by (intro normalize_off) simp
    moreover from e have "normalize_shift_type py (PStr (strip v)) = ascii ''OFF''"
      by (intro normalize_off) simp
    ultimately show ?thesis by simp
  next
    assume n: "upper py (strip v) = ascii ''NULL''"
    have "upper py v = upper py l @ upper py (strip v) @ upper py r"
      by (subst d(1)) (simp only: upper_append)
    with n d(2,3) have "upper py v = l @ ascii ''NULL'' @ r" by (simp add: upper_spaces)
    then have "strip (upper py v) = ascii ''NULL''"
      using strip_core [OF d(2,3) null_ends] by simp
    then have "normalize_shift_type py (PStr v) = ascii ''OFF''" by (intro normalize_off) simp
    moreover have "strip (ascii ''NULL'') = ascii ''NULL''"
      using strip_core [of "[]" "[]", OF _ _ null_ends] by simp
    with n have "normalize_shift_type py (PStr (strip v)) = ascii ''OFF''"
      by (intro normalize_off) simp
    ultimately show ?thesis by simp
  qed
qed

lemma blank_cell_off:
  assumes "blank_cell py row col"
  shows "normalize_shift_type py (row_get row col) = ascii ''OFF''"
proof (cases "row_get row col")
  case PNone
  then show ?thesis by (simp add: normalize_shift_type_def)
next
  case (PStr v)
  with assms have "strip v = [] \<or> upper py (strip v) = ascii ''NULL''" by (simp add: blank_cell_def)
  from normalize_blank [OF this] PStr show ?thesis by simp
qed

lemma blank_cell_skipped:
  "blank_cell (python e) row col \<Longrightarrow> store_cell e sid u row col st = st"
  by (simp add: store_cell_eq blank_cell_entry)

subsection \<open>Identity links\<close>

lemma map_of_add_part:
  "map_of (fold (add_part uid) parts d) s =
     (if s \<noteq> [] \<and> s \<in> strip ` set parts then Some uid else map_of d s)"
  by (induction parts arbitrary: d) (auto simp: add_part_def update_conv')

lemma map_of_add_mapping:
  "map_of (add_mapping m d) s = (if s \<in> link_keys m then Some (userID m) else map_of d s)"
  by (auto simp: add_mapping_def link_keys_def Let_def map_of_add_part update_conv'
      split: option.splits)

lemma build_snoc:
  "build_identifier_to_user (ms @ [m]) = add_mapping m (build_identifier_to_user ms)"
  by (simp add: build_identifier_to_user_def)

lemma map_of_build_miss:
  "\<forall>m \<in> set ms. s \<notin> link_keys m \<Longrightarrow> map_of (build_identifier_to_user ms) s = None"
  by (induction ms rule: rev_induct)
     (simp_all add: build_snoc map_of_add_mapping, simp add: build_identifier_to_user_def)

lemma map_of_build_hit:
  "\<exists>m \<in> set ms. s \<in> link_keys m \<Longrightarrow>
   \<exists>m \<in> set ms. s \<in> link_keys m \<and> map_of (build_identifier_to_user ms) s = Some (userID m)"
proof (induction ms rule: rev_induct)
  case Nil
  then show ?case by simp
next
  case (snoc m ms)
  show ?case
  proof (cases "s \<in> link_keys m")
    case True
    then show ?thesis by (auto simp: build_snoc map_of_add_mapping)
  next
    case False
    with snoc.prems have "\<exists>m \<in> set ms. s \<in> link_keys m" by auto
    from snoc.IH [OF this] False show ?thesis by (auto simp: build_snoc map_of_add_mapping)
  qed
qed

subsection \<open>More of the example data\<close>

lemma replaced_single:
  "row_user itu idc r0 = Some u \<Longrightarrow>
   replaced py sid itu idc cols [r0] c =
     (\<lambda>(u', s, d). if s = sid \<and> u' = u then row_schedule py idc cols (row_dict r0) d else c (u', s, d))"
  by (auto simp: replaced_def last_row_of_def fun_eq_iff)

lemma sync_example_single:
  "sync_schedule_data (remote (snapshot_of ex_header [row_of (ascii ''E04'') a b])) (ascii ''sched-1'') ty tb
     force ex_world =
     (success_result (length (row_entries plain (ascii ''name'')
                                ex_header (row_dict (row_of (ascii ''E04'') a b)))) 1 (Some 0) 0,
      [FetchCall 0],
      (finished (ascii ''sched-1'') (ascii ''tenant-1'') ty tb [FetchCall 0]
         (length (row_entries plain (ascii ''name'')
                    ex_header (row_dict (row_of (ascii ''E04'') a b)))) 1 None ex_world)
      \<lparr>cache := (\<lambda>(u', s, d). if s = ascii ''sched-1'' \<and> u' = ascii ''user-004''
                    then row_schedule plain (ascii ''name'')
                           ex_header (row_dict (row_of (ascii ''E04'') a b)) d
                    else cache ex_world (u', s, d))\<rparr>)"
  by (simp add: sync_example replaced_single [OF row_user_examples(1)] entries_written_def
        users_resolved_def row_user_examples map_filter_simps)

section \<open>The claims\<close>

subsection \<open>C6: a failed sync leaves the cache alone\<close>



subsection \<open>C3: terminal states and the ledger\<close>

text \<open>
  Claim C3 says that every terminal state of a sync, a nonexistent target included, is
  captured into the ledger. For a nonexistent target the service returns its failure result
  before it opens a ticket: the ledger stays empty.
\<close>

theorem missing_target_leaves_no_ticket:
  "\<not> success (fst run_missing_target) \<and>
   error (fst run_missing_target) = Some (PStr (ascii ''Schedule definition not found: sched-404'')) \<and>
   ledger (snd (snd run_missing_target)) = []"
  by (simp add: run_missing_target_eq failure_result_def ex_world_facts)

text \<open>
  Claim C3, amended. \<open>sync_schedule_data\<close> always returns a structured result. For a
  nonexistent target it is a failure result and the database is untouched, with no ticket; for
  a sync skipped as fresh it is a success result marked skipped, again with no ticket. In
  every other case exactly one ticket is added to the ledger and it is finalized: for a
  success with the counts of the result and no error; for a failure with zero rows, zero
  users and the error of the result. That error is a message, and the ticket is finalized as
  failed with it, except when the fetcher returns a failed dictionary that holds \<open>None\<close>
  under \<open>'error'\<close>: then the result carries the error \<open>None\<close> and the ticket is finalized
  without an error message, which makes its status success.
\<close>

theorem sync_terminal_states:
  assumes "sync_schedule_data e sid ty tb force w = (r, tr, w')"
  shows "if schedule_defs w sid = None
         then \<not> success r \<and> error r = Some (PStr (ascii ''Schedule definition not found: '' @ sid)) \<and>
              w' = w
         else if \<not> force \<and> \<not> should_sync sid 10 w
         then success r \<and> skipped r \<and> w' = w
         else (\<exists>l. ledger w' = ledger w @ [l] \<and> sl_schedule_def_id l = sid \<and>
                   sl_completed_at l \<noteq> None \<and>
                   (if success r
                    then sl_status l = Success \<and> sl_error_message l = None \<and> error r = None \<and>
                         rows_synced r = Some (sl_rows_synced l) \<and>
                         users_synced r = Some (sl_users_synced l)
                    else sl_rows_synced l = 0 \<and> sl_users_synced l = 0 \<and>
                         (case error r of
                            None \<Rightarrow> False
                          | Some PNone \<Rightarrow>
                              sl_error_message l = None \<and> sl_status l = Success \<and>
                              sd_error (fst (fetch_with_retry e 3 2)) = Some PNone
                          | Some (PStr msg) \<Rightarrow>
                              sl_error_message l = Some msg \<and> sl_status l = Failed)))"
  using assms
proof (cases rule: sync_cases)
  case not_found
  then show ?thesis by (simp add: failure_result_def)
next
  case (skip tenant)
  then show ?thesis by (simp add: skipped_result_def)
next
  case (fetch_failed tenant sheets msg)
  have "ledger w' = ledger w @ [finalize (clock (opened sid tenant ty tb tr w)) 0 0 (message_of msg)
          \<lparr>sl_id = length (ledger w), sl_schedule_def_id = sid, sl_tenant_id = tenant,
           sl_sync_type = ty, sl_triggered_by = tb, sl_started_at = clock w,
           sl_completed_at = None, sl_status = Pending, sl_rows_synced = 0,
           sl_users_synced = 0, sl_error_message = None\<rparr>]"
    unfolding fetch_failed(7) by (rule ledger_mark_completed) (rule ledger_opened)
  moreover have "msg = PNone \<Longrightarrow> sd_error (fst (fetch_with_retry e 3 2)) = Some PNone"
    using fetch_failed(3,5) by (auto simp: reported_error_def split: option.splits)
  ultimately show ?thesis
    using fetch_failed(1,2,6)
    by (cases msg) (auto simp: failure_result_def finalize_def)
next
  case (store_raised tenant sheets msg)
  have "ledger w' = ledger w @ [finalize (clock (opened sid tenant ty tb tr w)) 0 0 (Some msg)
          \<lparr>sl_id = length (ledger w), sl_schedule_def_id = sid, sl_tenant_id = tenant,
           sl_sync_type = ty, sl_triggered_by = tb, sl_started_at = clock w,
           sl_completed_at = None, sl_status = Pending, sl_rows_synced = 0,
           sl_users_synced = 0, sl_error_message = None\<rparr>]"
    unfolding store_raised(7) by (rule ledger_mark_completed) (rule ledger_opened)
  with store_raised(1,2,6) show ?thesis
    by (auto simp: failure_result_def finalize_def)
next
  case (stored tenant sheets rows users w3)
  from store_Inr_frame [OF stored(5)]
  have l3: "ledger w3 = ledger (opened sid tenant ty tb tr w)" by simp
  have "ledger w' = ledger w @ [finalize (clock w3) rows users None
          \<lparr>sl_id = length (ledger w), sl_schedule_def_id = sid, sl_tenant_id = tenant,
           sl_sync_type = ty, sl_triggered_by = tb, sl_started_at = clock w,
           sl_completed_at = None, sl_status = Pending, sl_rows_synced = 0,
           sl_users_synced = 0, sl_error_message = None\<rparr>]"
    unfolding stored(6) by (rule ledger_mark_completed) (simp add: l3 ledger_opened)
  with stored(1,2,7) show ?thesis
    by (auto simp: success_result_def finalize_def)
qed

text \<open>
  A fetcher that raises, and a fetcher that returns a failed dictionary with \<open>None\<close> under
  \<open>'error'\<close>.
\<close>

theorem sync_terminal_states_witness:
  "(\<exists>l. ledger (snd (snd run_raised)) = ledger ex_world @ [l] \<and> sl_schedule_def_id l = ascii ''sched-1'' \<and>
        sl_completed_at l \<noteq> None \<and> sl_status l = Failed \<and> sl_rows_synced l = 0 \<and>
        sl_users_synced l = 0 \<and> sl_error_message l = Some (ascii ''connection reset'')) \<and>
   \<not> success (fst run_error_none) \<and> error (fst run_error_none) = Some PNone \<and>
   (\<exists>l. ledger (snd (snd run_error_none)) = ledger ex_world @ [l] \<and>
        sl_schedule_def_id l = ascii ''sched-1'' \<and> sl_completed_at l \<noteq> None \<and>
        sl_status l = Success \<and> sl_rows_synced l = 0 \<and> sl_users_synced l = 0 \<and>
        sl_error_message l = None)"
proof -
  have run: "sync_schedule_data (raising (ascii ''connection reset'')) (ascii ''sched-1'') (ascii ''auto'')
               None False ex_world
             = (fst run_raised, fst (snd run_raised), snd (snd run_raised))"
    by (simp add: run_raised_def)
  have failed: "\<not> success (fst run_raised)"
    "error (fst run_raised) = Some (PStr (ascii ''connection reset''))"
    by (simp_all add: run_raised_eq failure_result_def)
  have run': "sync_schedule_data (remote failure_none) (ascii ''sched-1'') (ascii ''auto'') None False ex_world
             = (fst run_error_none, fst (snd run_error_none), snd (snd run_error_none))"
    by (simp add: run_error_none_def)
  have failed': "\<not> success (fst run_error_none)" "error (fst run_error_none) = Some PNone"
    by (simp_all add: run_error_none_eq failure_result_def)
  from sync_terminal_states [OF run] failed
  have 1: "\<exists>l. ledger (snd (snd run_raised)) = ledger ex_world @ [l] \<and>
        sl_schedule_def_id l = ascii ''sched-1'' \<and>
        sl_completed_at l \<noteq> None \<and> sl_status l = Failed \<and> sl_rows_synced l = 0 \<and>
        sl_users_synced l = 0 \<and> sl_error_message l = Some (ascii ''connection reset'')"
    by (auto simp: ex_world_facts)
  from sync_terminal_states [OF run'] failed'
  have 2: "\<exists>l. ledger (snd (snd run_error_none)) = ledger ex_world @ [l] \<and>
        sl_schedule_def_id l = ascii ''sched-1'' \<and> sl_completed_at l \<noteq> None \<and>
        sl_status l = Success \<and> sl_rows_synced l = 0 \<and> sl_users_synced l = 0 \<and>
        sl_error_message l = None"
    by (auto simp: ex_world_facts)
  from 1 2 failed' show ?thesis by blast
qed

subsection \<open>C1: a header without an identifier column\<close>

text \<open>
  Claim C1 says that a snapshot whose header has none of the acceptable identifier columns
  makes the sync fail with a schema-drift error. The service logs a warning and returns zero
  counts instead: the result is a success and the ticket is finalized as success.
\<close>

theorem unknown_header_reports_success:
  "success (fst run_no_ident) \<and> error (fst run_no_ident) = None \<and>
   rows_synced (fst run_no_ident) = Some 0 \<and> users_synced (fst run_no_ident) = Some 0 \<and>
   map sl_status (ledger (snd (snd run_no_ident))) = [Success] \<and>
   map sl_error_message (ledger (snd (snd run_no_ident))) = [None]"
  by (simp add: run_no_ident_eq success_result_def finished_ledger finalize_def ex_world_facts)

text \<open>
  Claim C1, amended. If the fetched snapshot's header contains none of the acceptable
  identifier column names, the sync stores nothing and does not fail: the cache is unchanged,
  the result has \<open>success = True\<close> with zero rows and zero users and no error, and the ticket
  is finalized as success with zero rows and zero users.
\<close>

theorem no_identifier_column_is_success:
  assumes run: "sync_schedule_data e sid ty tb force w = (r, tr, w')"
    and target: "schedule_defs w sid \<noteq> None"
    and due: "force \<or> should_sync sid 10 w"
    and fetched: "fst (fetch_with_retry e 3 2) = sheets" "sd_success sheets"
                 "sd_final_output sheets = Present final"
    and header: "\<forall>col \<in> set identifier_candidates. col \<notin> set (fo_columns final)"
  shows "success r \<and> error r = None \<and> rows_synced r = Some 0 \<and> users_synced r = Some 0 \<and>
         cache w' = cache w \<and>
         (\<exists>l. ledger w' = ledger w @ [l] \<and> sl_status l = Success \<and> sl_error_message l = None \<and>
              sl_rows_synced l = 0 \<and> sl_users_synced l = 0)"
proof -
  have none: "find_identifier_column (fo_columns final) = None"
    using header by (simp add: find_identifier_column_def find_None_iff)
  then have nrows: "snapshot_rows sheets = None"
    using fetched(3) by (simp add: snapshot_rows_def)
  from run show ?thesis
  proof (cases rule: sync_cases)
    case not_found
    with target show ?thesis by simp
  next
    case (skip tenant)
    with due show ?thesis by simp
  next
    case (fetch_failed tenant sheets' msg)
    with fetched show ?thesis by simp
  next
    case (store_raised tenant sheets' msg)
    with fetched store_Inl [OF store_raised(5)] show ?thesis by simp
  next
    case (stored tenant sheets' rows users w3)
    with fetched have same: "sheets' = sheets" by simp
    from store_no_rows [OF nrows stored(5) [unfolded same]]
    have zero: "rows = 0" "users = 0" and w3: "w3 = opened sid tenant ty tb tr w" by simp_all
    have "ledger w' = ledger w @ [finalize (clock w3) 0 0 None
          \<lparr>sl_id = length (ledger w), sl_schedule_def_id = sid, sl_tenant_id = tenant,
           sl_sync_type = ty, sl_triggered_by = tb, sl_started_at = clock w,
           sl_completed_at = None, sl_status = Pending, sl_rows_synced = 0,
           sl_users_synced = 0, sl_error_message = None\<rparr>]"
      unfolding stored(6) zero by (rule ledger_mark_completed) (simp add: w3 ledger_opened)
    moreover have "cache w' = cache w" by (simp add: stored(6) w3)
    ultimately show ?thesis
      using stored(7) zero by (simp add: success_result_def finalize_def)
  qed
qed

theorem no_identifier_column_is_success_witness:
  "success (fst run_no_ident) \<and> error (fst run_no_ident) = None \<and>
   rows_synced (fst run_no_ident) = Some 0 \<and> users_synced (fst run_no_ident) = Some 0 \<and>
   cache (snd (snd run_no_ident)) = cache ex_world \<and>
   (\<exists>l. ledger (snd (snd run_no_ident)) = ledger ex_world @ [l] \<and> sl_status l = Success \<and>
        sl_error_message l = None \<and> sl_rows_synced l = 0 \<and> sl_users_synced l = 0)"
proof -
  let ?final = "\<lparr>fo_success = True,
                 fo_data = [Row [(ascii ''id'', PStr (ascii ''E04'')), (ascii ''2025-11-01'', PStr (ascii ''D''))]],
                 fo_columns = [ascii ''id'', ascii ''2025-11-01'']\<rparr>"
  have run: "sync_schedule_data (remote snapshot_no_ident) (ascii ''sched-1'') (ascii ''manual'') None True
               ex_world
             = (fst run_no_ident, fst (snd run_no_ident), snd (snd run_no_ident))"
    by (simp add: run_no_ident_def)
  have target: "schedule_defs ex_world (ascii ''sched-1'') \<noteq> None" by (simp add: ex_world_facts)
  have ok: "sd_success snapshot_no_ident" by (simp add: snapshot_no_ident_def snapshot_of_def)
  have fetched: "fst (fetch_with_retry (remote snapshot_no_ident) 3 2) = snapshot_no_ident"
    by (simp add: fetch_remote_ok [OF ok])
  have final: "sd_final_output snapshot_no_ident = Present ?final"
    by (simp add: snapshot_no_ident_def snapshot_of_def)
  have header: "\<forall>col \<in> set identifier_candidates. col \<notin> set (fo_columns ?final)"
    by (simp add: identifier_candidates_def ident_col1_def ident_col2_def ident_col3_def ascii_def)
  show ?thesis
    by (rule no_identifier_column_is_success [OF run target _ fetched ok final header]) simp
qed


subsection \<open>C5: whole-set replacement\<close>

text \<open>
  Claim C5 says that after a successful sync the cache holds, for every resolved user,
  exactly the entry set derived from the snapshot. The service clears the entries of the user
  before it stores each body row that resolves to that user. When two rows resolve to one
  user, here E04 exactly with a label on day 1 and E041 by substring with a label on day 5,
  the second row deletes what the first one stored: both entries are counted in
  \<open>rows_synced\<close>, and the cache ends with day 5 only.
\<close>

theorem later_row_deletes_earlier_entries:
  "row_user ex_links (ascii ''name'') (row_of (ascii ''E04'') (ascii ''D'') []) = Some (ascii ''user-004'') \<and>
   row_user ex_links (ascii ''name'') (row_of (ascii ''E041'') [] (ascii ''N'')) = Some (ascii ''user-004'') \<and>
   row_entries plain (ascii ''name'') ex_header (row_dict (row_of (ascii ''E04'') (ascii ''D'') [])) =
     [(Date 2025 11 1, ascii ''D'', ascii ''08:00 - 16:00'')] \<and>
   success (fst run_split) \<and> rows_synced (fst run_split) = Some 2 \<and>
   users_synced (fst run_split) = Some 1 \<and>
   cache (snd (snd run_split)) (ascii ''user-004'', ascii ''sched-1'', Date 2025 11 1) = None \<and>
   cache (snd (snd run_split)) (ascii ''user-004'', ascii ''sched-1'', Date 2025 11 5) =
     Some (ascii ''N'', ascii ''00:00 - 08:00'')"
  by (simp add: run_split_eq success_result_def row_user_examples row_entries_examples replaced_def
        last_row_examples row_schedule_def)

text \<open>
  Claim C5, amended. After a successful sync that was not skipped, for every user that a body
  row resolves to the cache holds, for the target, exactly the schedule of the last body row
  that resolves to the user, whatever it held before: a date for which that row gives no
  entry is absent from the cache. When a single row resolves to the user this is the entry
  set the snapshot gives for the user.
\<close>

theorem full_replacement:
  assumes run: "sync_schedule_data e sid ty tb force w = (r, tr, w')"
    and ok: "success r" "\<not> skipped r"
    and snap: "snapshot_rows (fst (fetch_with_retry e 3 2)) = Some (idc, cols, rows)"
    and user: "last_row_of (build_identifier_to_user (active_mappings sid w)) idc rows u = Some r0"
  shows "cache w' (u, sid, d) = row_schedule (python e) idc cols (row_dict r0) d \<and>
         (d \<notin> fst ` set (row_entries (python e) idc cols (row_dict r0)) \<longrightarrow> cache w' (u, sid, d) = None)"
proof -
  from sync_ran [OF run ok] have "schedule_defs w sid \<noteq> None" "force \<or> should_sync sid 10 w"
    by simp_all
  from sync_outcome [OF run this] ok snap
  have "cache w' = replaced (python e) sid (build_identifier_to_user (active_mappings sid w)) idc cols rows
                     (cache w)"
    by simp
  with user have "cache w' (u, sid, d) = row_schedule (python e) idc cols (row_dict r0) d"
    by (simp add: replaced_at_user)
  then show ?thesis by (simp add: row_schedule_None)
qed

text \<open>
  The scenario of the spec: the cache holds days 1, 2 and 3; the snapshot has one row for the
  user, with day 1 as D and day 5 as OFF; afterwards the cache holds exactly days 1 and 5.
\<close>

theorem full_replacement_witness:
  "cache ex_world (ascii ''user-004'', ascii ''sched-1'', Date 2025 11 2) = Some (ascii ''E'', ascii ''16:00 - 00:00'') \<and>
   cache ex_world (ascii ''user-004'', ascii ''sched-1'', Date 2025 11 3) = Some (ascii ''N'', ascii ''00:00 - 08:00'') \<and>
   (\<forall>d. cache (snd (snd run_U)) (ascii ''user-004'', ascii ''sched-1'', d) =
         [Date 2025 11 1 \<mapsto> (ascii ''D'', ascii ''08:00 - 16:00''),
          Date 2025 11 5 \<mapsto> (ascii ''OFF'', ascii ''--'')] d) \<and>
   cache (snd (snd run_U)) (ascii ''user-004'', ascii ''sched-1'', Date 2025 11 2) = None"
proof -
  let ?r = "row_of (ascii ''E04'') (ascii ''D'') (ascii ''OFF'')"
  have run: "sync_schedule_data (remote snapshot_U) (ascii ''sched-1'') (ascii ''manual'') None True ex_world
             = (fst run_U, fst (snd run_U), snd (snd run_U))"
    by (simp add: run_U_def)
  have ok: "success (fst run_U)" "\<not> skipped (fst run_U)"
    by (simp_all add: run_U_eq success_result_def)
  have good: "sd_success snapshot_U" by (simp add: snapshot_U_def snapshot_of_def)
  have snap: "snapshot_rows (fst (fetch_with_retry (remote snapshot_U) 3 2)) =
                Some (ascii ''name'', ex_header, [?r])"
    by (simp add: fetch_remote_ok [OF good]) (simp add: snapshot_U_def snapshot_rows_ex)
  have user: "last_row_of (build_identifier_to_user (active_mappings (ascii ''sched-1'') ex_world))
                (ascii ''name'') [?r] (ascii ''user-004'') = Some ?r"
    by (simp add: ex_world_facts last_row_of_def row_user_examples)
  have before:
    "cache ex_world (ascii ''user-004'', ascii ''sched-1'', Date 2025 11 2) = Some (ascii ''E'', ascii ''16:00 - 00:00'')"
    "cache ex_world (ascii ''user-004'', ascii ''sched-1'', Date 2025 11 3) = Some (ascii ''N'', ascii ''00:00 - 08:00'')"
    by (simp_all add: ex_world_def)
  have after: "cache (snd (snd run_U)) (ascii ''user-004'', ascii ''sched-1'', d) =
         [Date 2025 11 1 \<mapsto> (ascii ''D'', ascii ''08:00 - 16:00''),
          Date 2025 11 5 \<mapsto> (ascii ''OFF'', ascii ''--'')] d" for d
    using full_replacement [OF run ok snap user, of d]
    by (simp add: row_schedule_def row_entries_examples)
  have absent: "Date 2025 11 2 \<notin> fst ` set (row_entries (python (remote snapshot_U)) (ascii ''name'') ex_header
                                               (row_dict ?r))"
    by (simp add: row_entries_examples)
  have "cache (snd (snd run_U)) (ascii ''user-004'', ascii ''sched-1'', Date 2025 11 2) = None"
    using full_replacement [OF run ok snap user, of "Date 2025 11 2"] absent by blast
  with before after show ?thesis by simp
qed

subsection \<open>C9: idempotence\<close>

text \<open>
  Claim C9. Two forced syncs of a target in succession, against a remote that behaves the same
  both times and with the identity links unchanged, leave the same cache contents after each
  run and return the same \<open>rows_synced\<close> and \<open>users_synced\<close> (and the same \<open>success\<close>).
\<close>

theorem forced_sync_idempotent:
  assumes run1: "sync_schedule_data e sid ty1 tb1 True w = (r1, tr1, w1)"
    and run2: "sync_schedule_data e sid ty2 tb2 True w1 = (r2, tr2, w2)"
  shows "cache w2 = cache w1 \<and> rows_synced r2 = rows_synced r1 \<and> users_synced r2 = users_synced r1 \<and>
         success r2 = success r1"
proof (cases "schedule_defs w sid")
  case None
  have "sync_schedule_data e sid ty1 tb1 True w =
          (failure_result (PStr (ascii ''Schedule definition not found: '' @ sid)), [], w)"
    by (simp add: sync_schedule_data_def None)
  with run1 have first: "r1 = failure_result (PStr (ascii ''Schedule definition not found: '' @ sid))" "w1 = w"
    by simp_all
  have "sync_schedule_data e sid ty2 tb2 True w =
          (failure_result (PStr (ascii ''Schedule definition not found: '' @ sid)), [], w)"
    by (simp add: sync_schedule_data_def None)
  with run2 first(2) have "r2 = failure_result (PStr (ascii ''Schedule definition not found: '' @ sid))" "w2 = w"
    by simp_all
  with first show ?thesis by simp
next
  case (Some tenant)
  obtain sheets tr where f: "fetch_with_retry e 3 2 = (sheets, tr)"
    by (cases "fetch_with_retry e 3 2")
  from sync_frame [OF run1] Some
  have target1: "schedule_defs w1 sid = Some tenant" by simp
  from sync_frame [OF run1]
  have links: "active_mappings sid w1 = active_mappings sid w"
    by (intro active_mappings_frame) simp
  let ?itu = "build_identifier_to_user (active_mappings sid w)"
  have e1: "(r1, tr1, w1) =
     (if \<not> sd_success sheets
      then (failure_result (reported_error sheets), tr,
            finished sid tenant ty1 tb1 tr 0 0 (message_of (reported_error sheets)) w)
      else
        (case sd_final_output sheets of
           Malformed msg \<Rightarrow> (failure_result (PStr msg), tr, finished sid tenant ty1 tb1 tr 0 0 (Some msg) w)
         | _ \<Rightarrow>
           (case snapshot_rows sheets of
              None \<Rightarrow> (success_result 0 0 (Some (clock w + elapse tr)) (length (ledger w)), tr,
                        finished sid tenant ty1 tb1 tr 0 0 None w)
            | Some (idc, cols, rows) \<Rightarrow>
                (success_result (entries_written (python e) ?itu idc cols rows)
                   (length (users_resolved ?itu idc rows))
                   (Some (clock w + elapse tr)) (length (ledger w)), tr,
                 (finished sid tenant ty1 tb1 tr (entries_written (python e) ?itu idc cols rows)
                    (length (users_resolved ?itu idc rows)) None w)
                 \<lparr>cache := replaced (python e) sid ?itu idc cols rows (cache w)\<rparr>))))"
    unfolding run1 [symmetric] by (rule sync_eval [OF Some _ f]) simp
  have e2: "(r2, tr2, w2) =
     (if \<not> sd_success sheets
      then (failure_result (reported_error sheets), tr,
            finished sid tenant ty2 tb2 tr 0 0 (message_of (reported_error sheets)) w1)
      else
        (case sd_final_output sheets of
           Malformed msg \<Rightarrow> (failure_result (PStr msg), tr, finished sid tenant ty2 tb2 tr 0 0 (Some msg) w1)
         | _ \<Rightarrow>
           (case snapshot_rows sheets of
              None \<Rightarrow> (success_result 0 0 (Some (clock w1 + elapse tr)) (length (ledger w1)), tr,
                        finished sid tenant ty2 tb2 tr 0 0 None w1)
            | Some (idc, cols, rows) \<Rightarrow>
                (success_result (entries_written (python e) ?itu idc cols rows)
                   (length (users_resolved ?itu idc rows))
                   (Some (clock w1 + elapse tr)) (length (ledger w1)), tr,
                 (finished sid tenant ty2 tb2 tr (entries_written (python e) ?itu idc cols rows)
                    (length (users_resolved ?itu idc rows)) None w1)
                 \<lparr>cache := replaced (python e) sid ?itu idc cols rows (cache w1)\<rparr>))))"
    unfolding run2 [symmetric] links [symmetric] by (rule sync_eval [OF target1 _ f]) simp
  show ?thesis
  proof (cases "sd_success sheets")
    case False
    with e1 e2 show ?thesis by (simp add: failure_result_def finished_ledger)
  next
    case True
    show ?thesis
    proof (cases "\<exists>msg. sd_final_output sheets = Malformed msg")
      case bad: True
      then obtain msg where "sd_final_output sheets = Malformed msg" by blast
      with e1 e2 True show ?thesis by (simp add: failure_result_def finished_ledger)
    next
      case good: False
      show ?thesis
      proof (cases "snapshot_rows sheets")
        case None
        have "r1 = success_result 0 0 (Some (clock w + elapse tr)) (length (ledger w))"
          "w1 = finished sid tenant ty1 tb1 tr 0 0 None w"
          using e1 True good None by (cases "sd_final_output sheets"; simp)+
        moreover have "r2 = success_result 0 0 (Some (clock w1 + elapse tr)) (length (ledger w1))"
          "w2 = finished sid tenant ty2 tb2 tr 0 0 None w1"
          using e2 True good None by (cases "sd_final_output sheets"; simp)+
        ultimately show ?thesis by (simp add: success_result_def finished_ledger)
      next
        case (Some x)
        obtain idc cols rows where x: "x = (idc, cols, rows)" by (cases x)
        have "rows_synced r1 = Some (entries_written (python e) ?itu idc cols rows)"
          "users_synced r1 = Some (length (users_resolved ?itu idc rows))" "success r1"
          "cache w1 = replaced (python e) sid ?itu idc cols rows (cache w)"
          using e1 True good Some x
          by (cases "sd_final_output sheets"; simp add: success_result_def)+
        moreover have "rows_synced r2 = Some (entries_written (python e) ?itu idc cols rows)"
          "users_synced r2 = Some (length (users_resolved ?itu idc rows))" "success r2"
          "cache w2 = replaced (python e) sid ?itu idc cols rows (cache w1)"
          using e2 True good Some x
          by (cases "sd_final_output sheets"; simp add: success_result_def)+
        ultimately show ?thesis by (simp add: replaced_idem)
      qed
    qed
  qed
qed

theorem forced_sync_idempotent_witness:
  "cache (snd (snd run_U_again)) = cache (snd (snd run_U)) \<and>
   rows_synced (fst run_U_again) = Some 2 \<and> rows_synced (fst run_U) = Some 2 \<and>
   users_synced (fst run_U_again) = Some 1 \<and> users_synced (fst run_U) = Some 1"
proof -
  have run1: "sync_schedule_data (remote snapshot_U) (ascii ''sched-1'') (ascii ''manual'') None True ex_world
             = (fst run_U, fst (snd run_U), snd (snd run_U))"
    by (simp add: run_U_def)
  have run2: "sync_schedule_data (remote snapshot_U) (ascii ''sched-1'') (ascii ''manual'') None True
                (snd (snd run_U))
             = (fst run_U_again, fst (snd run_U_again), snd (snd run_U_again))"
    by (simp add: run_U_again_def)
  have counts: "rows_synced (fst run_U) = Some 2" "users_synced (fst run_U) = Some 1"
    by (simp_all add: run_U_eq success_result_def)
  from forced_sync_idempotent [OF run1 run2] counts show ?thesis by simp
qed

subsection \<open>C8: rows that do not resolve\<close>

text \<open>
  Claim C8 says that the rows whose identifier does not resolve are counted, and that a snapshot
  of three rows with exactly one of them unresolvable gives \<open>users_synced = 2\<close>. Nothing counts
  the rows passed over: a fourth row that does not resolve changes neither the result nor the
  ledger. And of three rows with exactly one unresolvable, the other two can resolve to the
  same user, here E04 exactly and E041 by substring: then \<open>users_synced = 1\<close>.
\<close>

theorem skipped_rows_leave_no_count:
  "fst run_four = fst run_three \<and>
   ledger (snd (snd run_four)) = ledger (snd (snd run_three)) \<and>
   map (row_user ex_links (ascii ''name'')) same_user_rows =
     [Some (ascii ''user-004''), Some (ascii ''user-004''), None] \<and>
   success (fst run_same_user) \<and> users_synced (fst run_same_user) = Some 1"
  by (simp add: run_three_eq run_four_eq run_same_user_eq same_user_rows_def row_user_examples
        success_result_def)

text \<open>
  Claim C8, amended. Body rows whose identifier does not resolve to a user are passed over,
  without being counted, and never fail the sync: once the fetch succeeds and the snapshot has
  an identifier column, the sync returns \<open>success = True\<close>, \<open>users_synced\<close> is the number of
  different users the other rows resolve to, and \<open>rows_synced\<close> is the number of entries
  written for those rows. For three rows of which exactly one is unresolvable this gives
  \<open>users_synced = 2\<close> when the other two resolve to different users, and \<open>rows_synced > 0\<close>
  when one of them has a cell that is not blank under a header that parses as a date.
\<close>

theorem unresolved_rows_are_skipped:
  assumes run: "sync_schedule_data e sid ty tb force w = (r, tr, w')"
    and target: "schedule_defs w sid \<noteq> None"
    and due: "force \<or> should_sync sid 10 w"
    and fetched: "sd_success (fst (fetch_with_retry e 3 2))"
    and snap: "snapshot_rows (fst (fetch_with_retry e 3 2)) = Some (idc, cols, rows)"
  shows "success r \<and>
         users_synced r = Some (length (users_resolved (build_identifier_to_user (active_mappings sid w)) idc rows)) \<and>
         rows_synced r = Some (entries_written (python e) (build_identifier_to_user (active_mappings sid w)) idc cols rows)"
proof -
  from snap have "\<forall>msg. sd_final_output (fst (fetch_with_retry e 3 2)) \<noteq> Malformed msg"
    by (auto simp: snapshot_rows_def)
  with sync_outcome [OF run target due] fetched snap show ?thesis by auto
qed

theorem unresolved_rows_are_skipped_witness:
  "map (row_user ex_links (ascii ''name'')) three_rows =
     [Some (ascii ''user-004''), None, Some (ascii ''user-099'')] \<and>
   success (fst run_three) \<and> users_synced (fst run_three) = Some 2 \<and> rows_synced (fst run_three) = Some 3"
proof -
  let ?sheets = "snapshot_of ex_header three_rows"
  have run: "sync_schedule_data (remote ?sheets) (ascii ''sched-1'') (ascii ''manual'') None True ex_world
             = (fst run_three, fst (snd run_three), snd (snd run_three))"
    by (simp add: run_three_def)
  have target: "schedule_defs ex_world (ascii ''sched-1'') \<noteq> None" by (simp add: ex_world_facts)
  have good: "sd_success ?sheets" by (simp add: snapshot_of_def)
  have fetched: "sd_success (fst (fetch_with_retry (remote ?sheets) 3 2))"
    by (simp add: fetch_remote_ok [OF good] good)
  have snap: "snapshot_rows (fst (fetch_with_retry (remote ?sheets) 3 2)) =
                Some (ascii ''name'', ex_header, three_rows)"
    by (simp add: fetch_remote_ok [OF good] snapshot_rows_ex [OF rows_nonempty(1)])
  have resolved: "map (row_user ex_links (ascii ''name'')) three_rows =
                    [Some (ascii ''user-004''), None, Some (ascii ''user-099'')]"
    by (simp add: three_rows_def row_user_examples)
  from unresolved_rows_are_skipped [OF run target _ fetched snap] resolved
  show ?thesis by (simp add: ex_world_facts counts_examples user_counts)
qed


subsection \<open>C2: what a cache entry holds\<close>

text \<open>
  Claim C2 says that every cell written to the cache keeps its raw label beside the normalized
  code. A \<open>CachedSchedule\<close> row is built from the shift code and the time range of that code
  only: the labels DAY and "morning shift" leave the same cache, the same result and the same
  ledger, so the label cannot be read back from anything the sync stores.
\<close>

theorem raw_label_is_not_stored:
  "fst run_day = fst run_morning \<and>
   ledger (snd (snd run_day)) = ledger (snd (snd run_morning)) \<and>
   cache (snd (snd run_day)) = cache (snd (snd run_morning)) \<and>
   cache (snd (snd run_day)) (ascii ''user-004'', ascii ''sched-1'', Date 2025 11 5) =
     Some (ascii ''D'', ascii ''08:00 - 16:00'')"
proof -
  have "fst run_day = fst run_morning"
    by (simp add: run_day_def run_morning_def snapshot_day_def snapshot_morning_def sync_example_single
          row_entries_examples)
  moreover have "ledger (snd (snd run_day)) = ledger (snd (snd run_morning))"
    by (simp add: run_day_def run_morning_def snapshot_day_def snapshot_morning_def sync_example_single
          row_entries_examples finished_ledger)
  moreover have "cache (snd (snd run_day)) = cache (snd (snd run_morning))"
    by (auto simp: run_day_def run_morning_def snapshot_day_def snapshot_morning_def sync_example_single
          row_schedule_def row_entries_examples fun_eq_iff)
  moreover have "cache (snd (snd run_day)) (ascii ''user-004'', ascii ''sched-1'', Date 2025 11 5) =
                   Some (ascii ''D'', ascii ''08:00 - 16:00'')"
    by (simp add: run_day_def snapshot_day_def sync_example_single row_entries_examples row_schedule_def)
  ultimately show ?thesis by simp
qed

text \<open>
  Claim C2, amended. For every cell written to the cache during a sync, the entry holds the
  normalized shift code and the time range that belongs to that code, and nothing else: an
  entry that a sync leaves in the cache and that was not there before belongs to the target,
  its code is what the classifier makes of the stripped label of a cell of the snapshot, in a
  row that resolves to the user of the entry and under a header that parses as the date of the
  entry; the code is one of D, E, N and OFF and the time range is that of the code. The raw
  label is not stored: two syncs whose snapshots differ in their labels only, cell by cell
  with the same code, leave identical caches and return the same counts.
\<close>

theorem stored_entry_is_code_and_range:
  assumes run: "sync_schedule_data e sid ty tb force w = (r, tr, w')"
  shows "(\<forall>u s d code trange.
            cache w' (u, s, d) = Some (code, trange) \<longrightarrow> cache w (u, s, d) \<noteq> Some (code, trange) \<longrightarrow>
            s = sid \<and> code \<in> {ascii ''D'', ascii ''E'', ascii ''N'', ascii ''OFF''} \<and>
            trange = get_time_range code \<and>
            (\<exists>idc cols rows r0 col label.
               snapshot_rows (fst (fetch_with_retry e 3 2)) = Some (idc, cols, rows) \<and>
               r0 \<in> set rows \<and>
               row_user (build_identifier_to_user (active_mappings sid w)) idc r0 = Some u \<and>
               col \<in> set cols \<and> col \<noteq> idc \<and> parse_date (python e) col = Some d \<and>
               row_get (row_dict r0) col = PStr label \<and>
               code = normalize_shift_type (python e) (PStr (strip label)))) \<and>
         (\<forall>e' ty' tb' force' r' tr' w'' idc cols rows rows'.
            sync_schedule_data e' sid ty' tb' force' w = (r', tr', w'') \<longrightarrow>
            python e' = python e \<longrightarrow>
            success r \<and> \<not> skipped r \<longrightarrow> success r' \<and> \<not> skipped r' \<longrightarrow>
            snapshot_rows (fst (fetch_with_retry e 3 2)) = Some (idc, cols, rows) \<longrightarrow>
            snapshot_rows (fst (fetch_with_retry e' 3 2)) = Some (idc, cols, rows') \<longrightarrow>
            list_all2 (same_codes (python e) idc cols) rows rows' \<longrightarrow>
            cache w'' = cache w' \<and> rows_synced r' = rows_synced r \<and> users_synced r' = users_synced r)"
proof (intro conjI allI impI)
  fix u s d code trange
  assume stored: "cache w' (u, s, d) = Some (code, trange)"
    and changed: "cache w (u, s, d) \<noteq> Some (code, trange)"
  let ?itu = "build_identifier_to_user (active_mappings sid w)"
  from sync_cache [OF run] stored changed obtain idc cols rows
    where snap: "snapshot_rows (fst (fetch_with_retry e 3 2)) = Some (idc, cols, rows)"
      and c: "cache w' = replaced (python e) sid ?itu idc cols rows (cache w)"
    by auto
  from stored changed have s: "s = sid"
    unfolding c by (auto simp: replaced_def split: if_splits)
  from stored changed have "last_row_of ?itu idc rows u \<noteq> None"
    unfolding c s by (auto simp: replaced_def split: option.splits)
  then obtain r0 where "last_row_of ?itu idc rows u = Some r0" by blast
  from last_row_of_Some [OF this] have r0: "r0 \<in> set rows" "row_user ?itu idc r0 = Some u"
    by simp_all
  from stored have "replaced (python e) sid ?itu idc cols rows (cache w) (u, sid, d) = Some (code, trange)"
    unfolding c s .
  from replaced_entry_source [OF this r0] obtain r1 col
    where src: "r1 \<in> set rows" "col \<in> set cols" "col \<noteq> idc" "row_user ?itu idc r1 = Some u"
      "parse_date (python e) col = Some d"
      "label_code (python e) (row_get (row_dict r1) col) = Some code"
      "trange = get_time_range code"
    by blast
  from src(6) obtain label
    where label: "row_get (row_dict r1) col = PStr label"
      "code = normalize_shift_type (python e) (PStr (strip label))"
    by (auto simp: label_code_Some)
  show "s = sid" by (rule s)
  show "code \<in> {ascii ''D'', ascii ''E'', ascii ''N'', ascii ''OFF''}"
    unfolding label(2) by (rule normalize_shift_type_range)
  show "trange = get_time_range code" by (rule src(7))
  show "\<exists>idc cols rows r0 col label.
          snapshot_rows (fst (fetch_with_retry e 3 2)) = Some (idc, cols, rows) \<and>
          r0 \<in> set rows \<and> row_user ?itu idc r0 = Some u \<and>
          col \<in> set cols \<and> col \<noteq> idc \<and> parse_date (python e) col = Some d \<and>
          row_get (row_dict r0) col = PStr label \<and>
          code = normalize_shift_type (python e) (PStr (strip label))"
    using snap src(1-5) label by blast
next
  fix e' ty' tb' force' r' tr' w'' idc cols rows rows'
  assume run': "sync_schedule_data e' sid ty' tb' force' w = (r', tr', w'')"
    and py: "python e' = python e"
    and ok: "success r \<and> \<not> skipped r" and ok': "success r' \<and> \<not> skipped r'"
    and snap: "snapshot_rows (fst (fetch_with_retry e 3 2)) = Some (idc, cols, rows)"
    and snap': "snapshot_rows (fst (fetch_with_retry e' 3 2)) = Some (idc, cols, rows')"
    and same: "list_all2 (same_codes (python e) idc cols) rows rows'"
  let ?itu = "build_identifier_to_user (active_mappings sid w)"
  from ok have "success r" "\<not> skipped r" by simp_all
  from sync_ran [OF run this] have "schedule_defs w sid \<noteq> None" "force \<or> should_sync sid 10 w"
    by simp_all
  from sync_outcome [OF run this] ok snap
  have first: "rows_synced r = Some (entries_written (python e) ?itu idc cols rows)"
    "users_synced r = Some (length (users_resolved ?itu idc rows))"
    "cache w' = replaced (python e) sid ?itu idc cols rows (cache w)"
    by simp_all
  from ok' have "success r'" "\<not> skipped r'" by simp_all
  from sync_ran [OF run' this] have "schedule_defs w sid \<noteq> None" "force' \<or> should_sync sid 10 w"
    by simp_all
  from sync_outcome [OF run' this] ok' snap' py
  have second: "rows_synced r' = Some (entries_written (python e) ?itu idc cols rows')"
    "users_synced r' = Some (length (users_resolved ?itu idc rows'))"
    "cache w'' = replaced (python e) sid ?itu idc cols rows' (cache w)"
    by simp_all
  from first second same_codes_replaced [OF same] same_codes_counts [OF same]
  have res: "cache w'' = cache w' \<and> rows_synced r' = rows_synced r \<and> users_synced r' = users_synced r"
    by simp
  from res show "cache w'' = cache w'" by simp
  from res show "rows_synced r' = rows_synced r" by simp
  from res show "users_synced r' = users_synced r" by simp
qed

text \<open>
  The sync of the snapshot with the label DAY on day 5: its entry for that day is new, and its
  code is what the classifier makes of DAY. The sync of the snapshot with the label "morning
  shift" instead leaves the same cache.
\<close>

theorem stored_entry_is_code_and_range_witness:
  "cache (snd (snd run_day)) (ascii ''user-004'', ascii ''sched-1'', Date 2025 11 5) =
     Some (ascii ''D'', ascii ''08:00 - 16:00'') \<and>
   cache ex_world (ascii ''user-004'', ascii ''sched-1'', Date 2025 11 5) = None \<and>
   ascii ''08:00 - 16:00'' = get_time_range (ascii ''D'') \<and>
   (\<exists>idc cols rows r0 col label.
      snapshot_rows (fst (fetch_with_retry (remote snapshot_day) 3 2)) = Some (idc, cols, rows) \<and>
      r0 \<in> set rows \<and>
      row_user (build_identifier_to_user (active_mappings (ascii ''sched-1'') ex_world)) idc r0 =
        Some (ascii ''user-004'') \<and>
      col \<in> set cols \<and> col \<noteq> idc \<and> parse_date (python (remote snapshot_day)) col = Some (Date 2025 11 5) \<and>
      row_get (row_dict r0) col = PStr label \<and>
      ascii ''D'' = normalize_shift_type (python (remote snapshot_day)) (PStr (strip label))) \<and>
   list_all2 (same_codes plain (ascii ''name'') ex_header)
     [row_of (ascii ''E04'') (ascii ''D'') (ascii ''DAY'')]
     [row_of (ascii ''E04'') (ascii ''D'') (ascii ''morning shift'')] \<and>
   cache (snd (snd run_morning)) = cache (snd (snd run_day)) \<and>
   rows_synced (fst run_morning) = rows_synced (fst run_day) \<and>
   users_synced (fst run_morning) = users_synced (fst run_day)"
proof -
  let ?day = "row_of (ascii ''E04'') (ascii ''D'') (ascii ''DAY'')"
  let ?morning = "row_of (ascii ''E04'') (ascii ''D'') (ascii ''morning shift'')"
  have run: "sync_schedule_data (remote snapshot_day) (ascii ''sched-1'') (ascii ''manual'') None True ex_world
             = (fst run_day, fst (snd run_day), snd (snd run_day))"
    by (simp add: run_day_def)
  have run': "sync_schedule_data (remote snapshot_morning) (ascii ''sched-1'') (ascii ''manual'') None True
                ex_world
             = (fst run_morning, fst (snd run_morning), snd (snd run_morning))"
    by (simp add: run_morning_def)
  have stored: "cache (snd (snd run_day)) (ascii ''user-004'', ascii ''sched-1'', Date 2025 11 5) =
                  Some (ascii ''D'', ascii ''08:00 - 16:00'')"
    by (simp add: run_day_def snapshot_day_def sync_example_single row_entries_examples row_schedule_def)
  have before: "cache ex_world (ascii ''user-004'', ascii ''sched-1'', Date 2025 11 5) = None"
    by (simp add: ex_world_def)
  then have changed: "cache ex_world (ascii ''user-004'', ascii ''sched-1'', Date 2025 11 5) \<noteq>
                        Some (ascii ''D'', ascii ''08:00 - 16:00'')"
    by simp
  have py: "python (remote snapshot_morning) = python (remote snapshot_day)" by simp
  have ok: "success (fst run_day) \<and> \<not> skipped (fst run_day)"
    by (simp add: run_day_def snapshot_day_def sync_example_single success_result_def)
  have ok': "success (fst run_morning) \<and> \<not> skipped (fst run_morning)"
    by (simp add: run_morning_def snapshot_morning_def sync_example_single success_result_def)
  have good: "sd_success snapshot_day" "sd_success snapshot_morning"
    by (simp_all add: snapshot_day_def snapshot_morning_def snapshot_of_def)
  have snap: "snapshot_rows (fst (fetch_with_retry (remote snapshot_day) 3 2)) =
                Some (ascii ''name'', ex_header, [?day])"
    by (simp add: fetch_remote_ok [OF good(1)]) (simp add: snapshot_day_def snapshot_rows_ex)
  have snap': "snapshot_rows (fst (fetch_with_retry (remote snapshot_morning) 3 2)) =
                Some (ascii ''name'', ex_header, [?morning])"
    by (simp add: fetch_remote_ok [OF good(2)]) (simp add: snapshot_morning_def snapshot_rows_ex)
  have same: "list_all2 (same_codes plain (ascii ''name'') ex_header) [?day] [?morning]"
    by (simp add: same_codes_def row_of_def row_get_def ex_header_def label_code_examples)
  then have same': "list_all2 (same_codes (python (remote snapshot_day)) (ascii ''name'') ex_header)
                      [?day] [?morning]"
    by simp
  note both = stored_entry_is_code_and_range [OF run]
  from both [THEN conjunct1, rule_format, OF stored changed]
  have entry: "ascii ''08:00 - 16:00'' = get_time_range (ascii ''D'') \<and>
    (\<exists>idc cols rows r0 col label.
      snapshot_rows (fst (fetch_with_retry (remote snapshot_day) 3 2)) = Some (idc, cols, rows) \<and>
      r0 \<in> set rows \<and>
      row_user (build_identifier_to_user (active_mappings (ascii ''sched-1'') ex_world)) idc r0 =
        Some (ascii ''user-004'') \<and>
      col \<in> set cols \<and> col \<noteq> idc \<and> parse_date (python (remote snapshot_day)) col = Some (Date 2025 11 5) \<and>
      row_get (row_dict r0) col = PStr label \<and>
      ascii ''D'' = normalize_shift_type (python (remote snapshot_day)) (PStr (strip label)))"
    by blast
  from both [THEN conjunct2, rule_format, OF run' py ok ok' snap snap' same']
  have equal: "cache (snd (snd run_morning)) = cache (snd (snd run_day)) \<and>
    rows_synced (fst run_morning) = rows_synced (fst run_day) \<and>
    users_synced (fst run_morning) = users_synced (fst run_day)" .
  from stored before entry same equal show ?thesis by blast
qed

subsection \<open>C10: blank cells\<close>

text \<open>
  Claim C10 says that for every blank cell of a body row the user has no entry for the date of
  that cell after the sync. Another row that resolves to the same user can hold a label under
  the same header: here the row E041, which resolves to user-004 by substring, has a blank
  cell on day 5, the row E04 after it has the label N there, and the cache holds N for
  user-004 on day 5.
\<close>

theorem blank_cell_date_is_cached:
  "blank_cell plain (row_dict (row_of (ascii ''E041'') (ascii ''D'') [])) (ascii ''2025-11-05'') \<and>
   row_user ex_links (ascii ''name'') (row_of (ascii ''E041'') (ascii ''D'') []) = Some (ascii ''user-004'') \<and>
   parse_date plain (ascii ''2025-11-05'') = Some (Date 2025 11 5) \<and>
   success (fst run_covered) \<and>
   cache (snd (snd run_covered)) (ascii ''user-004'', ascii ''sched-1'', Date 2025 11 5) =
     Some (ascii ''N'', ascii ''00:00 - 08:00'')"
  by (simp add: blank_cell_iff row_dict_def row_of_def row_get_def label_code_examples row_user_examples
        [unfolded row_of_def] parse_nov5 run_covered_eq success_result_def replaced_def last_row_examples
        row_schedule_def row_entries_examples [unfolded row_of_def row_dict_def, simplified])

text \<open>
  Claim C10, amended. A body-row cell whose value is missing or \<open>None\<close>, or whose stripped
  text is empty or equals NULL ignoring case, is passed over: its pass of the loop over the
  date columns changes neither the cache nor the count of entries, although the classifier
  maps such a value to OFF. So no entry ever comes from a blank cell: after a successful
  sync, every entry that the cache holds for a user with a body row is the entry of a cell
  that is not blank, in a row that resolves to that user and under a header that parses as
  the date of the entry. The date of a blank cell is therefore absent for the user unless
  another cell, in another column of the same date or in another row of the same user, holds
  a label for it.
\<close>

theorem blank_cell_is_not_stored:
  assumes blank: "blank_cell (python e) row date_col"
  shows "store_cell e sid u row date_col st = st \<and>
         normalize_shift_type (python e) (row_get row date_col) = ascii ''OFF'' \<and>
         (\<forall>ty tb force w r tr w' idc cols rows d code trange.
            sync_schedule_data e sid ty tb force w = (r, tr, w') \<longrightarrow> success r \<and> \<not> skipped r \<longrightarrow>
            snapshot_rows (fst (fetch_with_retry e 3 2)) = Some (idc, cols, rows) \<longrightarrow>
            Row row \<in> set rows \<longrightarrow>
            row_user (build_identifier_to_user (active_mappings sid w)) idc (Row row) = Some u \<longrightarrow>
            cache w' (u, sid, d) = Some (code, trange) \<longrightarrow>
            (\<exists>r1 \<in> set rows. \<exists>col \<in> set cols.
               (r1, col) \<noteq> (Row row, date_col) \<and> col \<noteq> idc \<and>
               row_user (build_identifier_to_user (active_mappings sid w)) idc r1 = Some u \<and>
               parse_date (python e) col = Some d \<and> \<not> blank_cell (python e) (row_dict r1) col \<and>
               cell_entry (python e) (row_dict r1) col = Some (d, code, trange)))"
proof (intro conjI allI impI)
  show "store_cell e sid u row date_col st = st"
    using blank by (rule blank_cell_skipped)
  show "normalize_shift_type (python e) (row_get row date_col) = ascii ''OFF''"
    using blank by (rule blank_cell_off)
next
  fix ty tb force w r tr w' idc cols rows d code trange
  let ?itu = "build_identifier_to_user (active_mappings sid w)"
  assume run: "sync_schedule_data e sid ty tb force w = (r, tr, w')"
    and ok: "success r \<and> \<not> skipped r"
    and snap: "snapshot_rows (fst (fetch_with_retry e 3 2)) = Some (idc, cols, rows)"
    and row: "Row row \<in> set rows" "row_user ?itu idc (Row row) = Some u"
    and entry: "cache w' (u, sid, d) = Some (code, trange)"
  from ok have "success r" "\<not> skipped r" by simp_all
  from sync_ran [OF run this] have "schedule_defs w sid \<noteq> None" "force \<or> should_sync sid 10 w"
    by simp_all
  from sync_outcome [OF run this] ok snap
  have "cache w' = replaced (python e) sid ?itu idc cols rows (cache w)" by simp
  with entry have "replaced (python e) sid ?itu idc cols rows (cache w) (u, sid, d) = Some (code, trange)"
    by simp
  from replaced_entry_source [OF this row] obtain r1 col
    where src: "r1 \<in> set rows" "col \<in> set cols" "col \<noteq> idc" "row_user ?itu idc r1 = Some u"
      "parse_date (python e) col = Some d"
      "label_code (python e) (row_get (row_dict r1) col) = Some code"
      "trange = get_time_range code"
    by blast
  from src(6) have nb: "\<not> blank_cell (python e) (row_dict r1) col" by (simp add: blank_cell_iff)
  with blank have other: "(r1, col) \<noteq> (Row row, date_col)" by (auto simp: row_dict_def)
  from src(5,6,7) have "cell_entry (python e) (row_dict r1) col = Some (d, code, trange)"
    by (simp add: cell_entry_Some)
  with src(1-5) nb other
  show "\<exists>r1 \<in> set rows. \<exists>col \<in> set cols.
          (r1, col) \<noteq> (Row row, date_col) \<and> col \<noteq> idc \<and> row_user ?itu idc r1 = Some u \<and>
          parse_date (python e) col = Some d \<and> \<not> blank_cell (python e) (row_dict r1) col \<and>
          cell_entry (python e) (row_dict r1) col = Some (d, code, trange)"
    by blast
qed

text \<open>
  A row whose cell of day 5 is the text null between an ideographic space and a space: the
  classifier maps it to OFF; after the sync the user has the entry of day 1, which comes from
  the cell of day 1, and no entry for day 5.
\<close>

theorem blank_cell_is_not_stored_witness:
  "blank_cell plain [(ascii ''name'', PStr (ascii ''E04'')), (ascii ''2025-11-01'', PStr (ascii ''D'')),
                     (ascii ''2025-11-05'', PStr null_label)] (ascii ''2025-11-05'') \<and>
   store_cell (remote (snapshot_of ex_header [row_of (ascii ''E04'') (ascii ''D'') null_label]))
     (ascii ''sched-1'') (ascii ''user-004'')
     [(ascii ''name'', PStr (ascii ''E04'')), (ascii ''2025-11-01'', PStr (ascii ''D'')),
      (ascii ''2025-11-05'', PStr null_label)] (ascii ''2025-11-05'') (cache ex_world, 0) = (cache ex_world, 0) \<and>
   normalize_shift_type plain (PStr null_label) = ascii ''OFF'' \<and>
   cache (snd (snd run_blank)) (ascii ''user-004'', ascii ''sched-1'', Date 2025 11 1) =
     Some (ascii ''D'', ascii ''08:00 - 16:00'') \<and>
   (\<exists>r1 \<in> set [row_of (ascii ''E04'') (ascii ''D'') null_label]. \<exists>col \<in> set ex_header.
      (r1, col) \<noteq> (row_of (ascii ''E04'') (ascii ''D'') null_label, ascii ''2025-11-05'') \<and>
      col \<noteq> ascii ''name'' \<and> parse_date plain col = Some (Date 2025 11 1) \<and>
      \<not> blank_cell plain (row_dict r1) col \<and>
      cell_entry plain (row_dict r1) col = Some (Date 2025 11 1, ascii ''D'', ascii ''08:00 - 16:00'')) \<and>
   cache (snd (snd run_blank)) (ascii ''user-004'', ascii ''sched-1'', Date 2025 11 5) = None"
proof -
  let ?row = "[(ascii ''name'', PStr (ascii ''E04'')), (ascii ''2025-11-01'', PStr (ascii ''D'')),
               (ascii ''2025-11-05'', PStr null_label)]"
  let ?r = "row_of (ascii ''E04'') (ascii ''D'') null_label"
  let ?sheets = "snapshot_of ex_header [?r]"
  have r: "?r = Row ?row" by (simp add: row_of_def)
  have blank: "blank_cell (python (remote ?sheets)) ?row (ascii ''2025-11-05'')"
    by (simp add: blank_cell_iff row_get_def label_code_examples)
  have run: "sync_schedule_data (remote ?sheets) (ascii ''sched-1'') (ascii ''manual'') None True ex_world
             = (fst run_blank, fst (snd run_blank), snd (snd run_blank))"
    by (simp add: run_blank_def)
  have ok: "success (fst run_blank) \<and> \<not> skipped (fst run_blank)"
    by (simp add: run_blank_def sync_example_single success_result_def)
  have good: "sd_success ?sheets" by (simp add: snapshot_of_def)
  have snap: "snapshot_rows (fst (fetch_with_retry (remote ?sheets) 3 2)) =
                Some (ascii ''name'', ex_header, [?r])"
    by (simp add: fetch_remote_ok [OF good] snapshot_rows_ex)
  have member: "Row ?row \<in> set [?r]" by (simp add: r)
  have user: "row_user (build_identifier_to_user (active_mappings (ascii ''sched-1'') ex_world))
                (ascii ''name'') (Row ?row) = Some (ascii ''user-004'')"
    using row_user_examples(1) [of "ascii ''D''" null_label] by (simp add: ex_world_facts r)
  have day1: "cache (snd (snd run_blank)) (ascii ''user-004'', ascii ''sched-1'', Date 2025 11 1) =
                Some (ascii ''D'', ascii ''08:00 - 16:00'')"
    by (simp add: run_blank_def sync_example_single row_entries_examples row_schedule_def)
  have day5: "cache (snd (snd run_blank)) (ascii ''user-004'', ascii ''sched-1'', Date 2025 11 5) = None"
    by (simp add: run_blank_def sync_example_single row_entries_examples row_schedule_def)
  have cell: "row_get ?row (ascii ''2025-11-05'') = PStr null_label"
    by (simp add: row_get_def)
  note inst = blank_cell_is_not_stored [OF blank, of "ascii ''sched-1''" "ascii ''user-004''"
      "(cache ex_world, 0)"]
  from inst have skipped: "store_cell (remote ?sheets) (ascii ''sched-1'') (ascii ''user-004'') ?row
      (ascii ''2025-11-05'') (cache ex_world, 0) = (cache ex_world, 0)"
    by (rule conjunct1)
  from inst cell have off: "normalize_shift_type plain (PStr null_label) = ascii ''OFF''"
    by simp
  from inst [THEN conjunct2, THEN conjunct2, rule_format, OF run ok snap member user day1]
  have source: "\<exists>r1 \<in> set [?r]. \<exists>col \<in> set ex_header.
      (r1, col) \<noteq> (?r, ascii ''2025-11-05'') \<and>
      col \<noteq> ascii ''name'' \<and> parse_date plain col = Some (Date 2025 11 1) \<and>
      \<not> blank_cell plain (row_dict r1) col \<and>
      cell_entry plain (row_dict r1) col = Some (Date 2025 11 1, ascii ''D'', ascii ''08:00 - 16:00'')"
    by (auto simp: r)
  from blank skipped off day1 source day5 show ?thesis by simp
qed

subsection \<open>C7: exact matches come first\<close>

text \<open>
  Claim C7 says that an exact match of the raw identifier has precedence for every raw
  identifier and link set. The service strips the identifier of the row before it looks it
  up, and it stores the identifier of a link as it is. With a link whose stored identifier is
  E04 followed by a space, the raw identifier of a row that is that very string is looked
  up as E04, which no link has: the substring match with the link E0 decides, and the row goes
  to user-099.
\<close>

theorem padded_link_is_not_matched_exactly:
  "ascii ''E04 '' \<in> link_keys link_E04_space \<and> userID link_E04_space = ascii ''user-004'' \<and>
   build_identifier_to_user [link_E0, link_E04_space] =
     [(ascii ''E0'', ascii ''user-099''), (ascii ''E04 '', ascii ''user-004'')] \<and>
   resolve_user (build_identifier_to_user [link_E0, link_E04_space]) (ascii ''E04 '') =
     Some (ascii ''user-099'') \<and>
   row_user (build_identifier_to_user [link_E0, link_E04_space]) (ascii ''name'')
     (row_of (ascii ''E04 '') (ascii ''D'') (ascii ''D'')) = Some (ascii ''user-099'')"
proof -
  have order: "build_identifier_to_user [link_E0, link_E04_space] =
                 [(ascii ''E0'', ascii ''user-099''), (ascii ''E04 '', ascii ''user-004'')]"
    by (simp add: build_identifier_to_user_def add_mapping_def link_E04_space_def link_E0_def)
  have keys: "ascii ''E04 '' \<in> link_keys link_E04_space" "userID link_E04_space = ascii ''user-004''"
    by (simp_all add: link_keys_def link_E04_space_def)
  have resolved: "resolve_user [(ascii ''E0'', ascii ''user-099''), (ascii ''E04 '', ascii ''user-004'')]
                    (ascii ''E04 '') = Some (ascii ''user-099'')"
    by (simp add: resolve_user_def partial_match_def strip_def is_space_def ascii_def)
  have row: "row_user [(ascii ''E0'', ascii ''user-099''), (ascii ''E04 '', ascii ''user-004'')] (ascii ''name'')
               (row_of (ascii ''E04 '') (ascii ''D'') (ascii ''D'')) = Some (ascii ''user-099'')"
    by (simp add: row_user_def row_of_def row_get_def resolved)
  from order keys resolved row show ?thesis by simp
qed

text \<open>
  Claim C7, amended. For every set of identity links and every raw identifier, resolution
  works on the stripped identifier: if the stripped identifier is exactly the stored raw
  string of a link, its full name/ID string or one of the tokens that string decomposes
  into, the identifier resolves to the user of such a link, whatever substring matches there
  are and wherever they stand in the iteration order. Only if the stripped identifier is none
  of these strings is the first link string taken, in insertion order, that contains the
  stripped identifier or is contained in it.
\<close>

theorem exact_match_precedence:
  "if (\<exists>m \<in> set ms. strip raw \<in> link_keys m)
   then (\<exists>m \<in> set ms. strip raw \<in> link_keys m \<and>
           resolve_user (build_identifier_to_user ms) raw = Some (userID m))
   else resolve_user (build_identifier_to_user ms) raw =
          map_option snd (find (partial_match (strip raw)) (build_identifier_to_user ms))"
proof (cases "\<exists>m \<in> set ms. strip raw \<in> link_keys m")
  case True
  from map_of_build_hit [OF True] obtain m
    where "m \<in> set ms" "strip raw \<in> link_keys m"
      "map_of (build_identifier_to_user ms) (strip raw) = Some (userID m)"
    by blast
  then have "\<exists>m \<in> set ms. strip raw \<in> link_keys m \<and>
               resolve_user (build_identifier_to_user ms) raw = Some (userID m)"
    by (auto simp: resolve_user_def)
  with True show ?thesis by simp
next
  case False
  then have "map_of (build_identifier_to_user ms) (strip raw) = None"
    by (intro map_of_build_miss) blast
  with False show ?thesis by (simp add: resolve_user_def)
qed

text \<open>
  The scenario of the spec, with the raw identifier E04 between spaces and the link E0 first
  in the iteration order: E0 is a substring of E04, and the identifier still resolves to
  user-004.
\<close>

theorem exact_match_precedence_witness:
  "build_identifier_to_user [link_E0, link_E04] =
     [(ascii ''E0'', ascii ''user-099''), (ascii ''E04'', ascii ''user-004'')] \<and>
   strip (ascii '' E04 '') = ascii ''E04'' \<and>
   partial_match (ascii ''E04'') (ascii ''E0'', ascii ''user-099'') \<and>
   resolve_user (build_identifier_to_user [link_E0, link_E04]) (ascii '' E04 '') = Some (ascii ''user-004'') \<and>
   resolve_user (build_identifier_to_user [link_E04, link_E0]) (ascii '' E04 '') = Some (ascii ''user-004'') \<and>
   resolve_user (build_identifier_to_user [link_E0, link_E04]) (ascii ''E04'') = Some (ascii ''user-004'')"
proof -
  have stripped: "strip (ascii '' E04 '') = ascii ''E04''" "strip (ascii ''E04'') = ascii ''E04''"
    by (simp_all add: strip_def is_space_def ascii_def)
  have keys: "ascii ''E04'' \<in> link_keys link_E04" "ascii ''E04'' \<notin> link_keys link_E0"
    "userID link_E04 = ascii ''user-004''"
    by (simp_all add: link_keys_def link_E04_def link_E0_def)
  have order: "build_identifier_to_user [link_E0, link_E04] =
                 [(ascii ''E0'', ascii ''user-099''), (ascii ''E04'', ascii ''user-004'')]"
    by (simp add: build_identifier_to_user_def add_mapping_def link_E04_def link_E0_def)
  have sub: "partial_match (ascii ''E04'') (ascii ''E0'', ascii ''user-099'')"
    by (simp add: partial_match_def ascii_def)
  have first: "resolve_user (build_identifier_to_user [link_E0, link_E04]) (ascii '' E04 '') =
                 Some (ascii ''user-004'')"
    using exact_match_precedence [of "[link_E0, link_E04]" "ascii '' E04 ''"] keys stripped by auto
  have second: "resolve_user (build_identifier_to_user [link_E04, link_E0]) (ascii '' E04 '') =
                  Some (ascii ''user-004'')"
    using exact_match_precedence [of "[link_E04, link_E0]" "ascii '' E04 ''"] keys stripped by auto
  have third: "resolve_user (build_identifier_to_user [link_E0, link_E04]) (ascii ''E04'') =
                 Some (ascii ''user-004'')"
    using exact_match_precedence [of "[link_E0, link_E04]" "ascii ''E04''"] keys stripped by auto
  from order stripped(1) sub first second third show ?thesis by simp
qed

subsection \<open>C4: retries of the fetch\<close>

text \<open>
  Claim C4 says that a failed fetch is retried if and only if its error is rate-limited. When
  the fetcher returns the error "Rate limit exceeded", \<open>_fetch_with_retry\<close> takes it for a
  rate-limit error and retries with sleeps of 2 and 4 seconds; when the fetcher raises an
  exception with the same text, the handler looks for 429 and quota only, and the first
  attempt is the last, with no sleep.
\<close>

theorem raised_rate_limit_is_not_retried:
  "rate_limited plain (ascii ''Rate limit exceeded'') \<and>
   fetch_with_retry (remote (failure_data (ascii ''Rate limit exceeded''))) 3 2 =
     (failure_data (ascii ''Rate limit exceeded''),
      [FetchCall 0, Sleep 2, FetchCall 1, Sleep 4, FetchCall 2]) \<and>
   fetch_with_retry (raising (ascii ''Rate limit exceeded'')) 3 2 =
     (failure_data (ascii ''Rate limit exceeded''), [FetchCall 0])"
proof -
  have limited: "rate_limited plain (ascii ''Rate limit exceeded'')"
    by (rule rate_limited_examples)
  have returned: "fetch_with_retry (remote (failure_data (ascii ''Rate limit exceeded''))) 3 2 =
     (failure_data (ascii ''Rate limit exceeded''),
      [FetchCall 0, Sleep 2, FetchCall 1, Sleep 4, FetchCall 2])"
    using fetch_remote_rate_limited [of "failure_data (ascii ''Rate limit exceeded'')" 2] limited
    by (simp add: reported_error_examples)
  have raised: "fetch_with_retry (raising (ascii ''Rate limit exceeded'')) 3 2 =
     (failure_data (ascii ''Rate limit exceeded''), [FetchCall 0])"
    by (rule fetch_raising_other) (rule rate_limited_examples)+
  from limited returned raised show ?thesis by simp
qed

end
